theory Spec2Isabelle
  imports Complex_Main
begin

section \<open>The rank calculator of \<^verbatim>\<open>src/calculateRank.js\<close>\<close>

text \<open>
  The source is one pure function, \<^verbatim>\<open>calculateRank\<close>, with two helpers. It is embedded
  twice, from the same source text.

  \<^item> In the first embedding a number is an exact real, which is the data model of the
  specification (``non-negative real numbers'', ``a real number in [0,100]''):
  \<^verbatim>\<open>2 ** -x\<close> is \<open>2 powr (- x)\<close> and \<^verbatim>\<open>/\<close> is real division. The only division by a
  value that is not a positive constant is the one in \<^verbatim>\<open>log_normal_cdf\<close>, whose divisor
  \<open>1 + x\<close> vanishes at \<open>x = - 1\<close> only, where the quotient is 0 in this reading and
  \<^verbatim>\<open>-Infinity\<close> in the program. Rounding, overflow and the values \<^verbatim>\<open>Infinity\<close> and
  \<^verbatim>\<open>NaN\<close> do not exist in this reading. It is used for what the result is made of: which
  expression each score is, which fields are read, how the fields of the result relate, and
  the table lookup.

  \<^item> In the second embedding, \<open>calculateRank_f64\<close>, a number is an IEEE 754 binary64 value
  and every operation rounds to nearest, ties to even, as a JavaScript engine computes it.
  It is used for the range and the order of the numbers that the program returns, which
  depend on rounding and overflow.

  A JavaScript \<^verbatim>\<open>undefined\<close> is \<open>None\<close>.
\<close>

subsection \<open>The two distribution functions\<close>

definition exponential_cdf :: "real \<Rightarrow> real" where
  "exponential_cdf x = 1 - 2 powr (- x)"

definition log_normal_cdf :: "real \<Rightarrow> real" where
  "log_normal_cdf x = x / (1 + x)"

subsection \<open>Input and output objects\<close>

record 'n params =
  all_commits :: bool
  commits :: 'n
  prs :: 'n
  issues :: 'n
  reviews :: 'n
  repos :: 'n
  stars :: 'n
  followers :: 'n

text \<open>
  The objects \<^verbatim>\<open>scores\<close>, \<^verbatim>\<open>weights\<close> and \<^verbatim>\<open>weighted_contributions\<close> all have the six
  keys \<^verbatim>\<open>commits\<close>, \<^verbatim>\<open>prs\<close>, \<^verbatim>\<open>issues\<close>, \<^verbatim>\<open>reviews\<close>, \<^verbatim>\<open>stars\<close>, \<^verbatim>\<open>followers\<close>; the
  fields carry the prefix \<open>m_\<close> to keep them apart from the input's. Likewise
  \<^verbatim>\<open>detailed.level\<close> and \<^verbatim>\<open>detailed.percentile\<close> are \<open>d_level\<close> and \<open>d_percentile\<close>.
  The type parameter \<open>'n\<close> is the type of numbers.
\<close>

record 'n per_metric =
  m_commits :: 'n
  m_prs :: 'n
  m_issues :: 'n
  m_reviews :: 'n
  m_stars :: 'n
  m_followers :: 'n

record 'n detailed_info =
  d_level :: "string option"
  d_percentile :: 'n
  scores :: "'n per_metric"
  weights :: "'n per_metric"
  weighted_contributions :: "'n per_metric"
  total_weighted_score :: 'n
  max_possible_score :: 'n

record 'n rank_result =
  level :: "string option"
  percentile :: 'n
  detailed :: "'n detailed_info"

subsection \<open>Array access\<close>

text \<open>
  \<^verbatim>\<open>Array.prototype.findIndex\<close> returns the index of the first element that satisfies the
  predicate, and \<open>- 1\<close> when there is none. Reading an array at an index outside
  \<open>0 .. length - 1\<close> gives \<^verbatim>\<open>undefined\<close>.
\<close>

fun findIndex_from :: "('a \<Rightarrow> bool) \<Rightarrow> 'a list \<Rightarrow> int \<Rightarrow> int" where
  "findIndex_from p [] k = - 1"
| "findIndex_from p (t # ts) k = (if p t then k else findIndex_from p ts (k + 1))"

definition findIndex :: "('a \<Rightarrow> bool) \<Rightarrow> 'a list \<Rightarrow> int" where
  "findIndex p ts = findIndex_from p ts 0"

definition element_at :: "'a list \<Rightarrow> int \<Rightarrow> 'a option" where
  "element_at xs i = (if 0 \<le> i \<and> i < int (length xs) then Some (xs ! nat i) else None)"

subsection \<open>calculateRank\<close>

text \<open>
  The two tables of the source, the decimal literals read as the numbers they write. The
  first threshold is the only one that is not a double: in binary64 the literal
  \<^verbatim>\<open>0.1\<close> is the double nearest to \<open>1 / 10\<close>, which \<open>THRESHOLDS_f64\<close> below has.
\<close>

definition THRESHOLDS :: "real list" where
  "THRESHOLDS = [1 / 10, 1 / 2, 1, 5, 25 / 2, 25, 75 / 2, 50, 125 / 2, 75, 175 / 2, 100]"

definition LEVELS :: "string list" where
  "LEVELS = [''S++'', ''S+'', ''S'', ''S-'', ''A+'', ''A'', ''A-'', ''B+'', ''B'', ''B-'', ''C+'', ''C'']"

text \<open>
  Line 86 of the source, \<^verbatim>\<open>LEVELS[THRESHOLDS.findIndex((t) => rank * 100 <= t)]\<close>, as a
  function of the value \<^verbatim>\<open>rank * 100\<close>.
\<close>

definition level_for :: "real \<Rightarrow> string option" where
  "level_for pct = element_at LEVELS (findIndex (\<lambda>t. pct \<le> t) THRESHOLDS)"

definition calculateRank :: "real params \<Rightarrow> real rank_result" where
  "calculateRank p =
    (let COMMITS_MEDIAN = (if all_commits p then 400 else 80); COMMITS_WEIGHT = 15;
         PRS_MEDIAN = 15; PRS_WEIGHT = 3;
         ISSUES_MEDIAN = 2; ISSUES_WEIGHT = 1 / 2;
         REVIEWS_MEDIAN = 2; REVIEWS_WEIGHT = 1 / 2;
         STARS_MEDIAN = 1 / 10; STARS_WEIGHT = 5 / 100;
         FOLLOWERS_MEDIAN = 2; FOLLOWERS_WEIGHT = 1 / 2;
         TOTAL_WEIGHT =
           COMMITS_WEIGHT + PRS_WEIGHT + ISSUES_WEIGHT + REVIEWS_WEIGHT + STARS_WEIGHT +
           FOLLOWERS_WEIGHT;
         commits_score = exponential_cdf (commits p / COMMITS_MEDIAN);
         prs_score = exponential_cdf (prs p / PRS_MEDIAN);
         issues_score = exponential_cdf (issues p / ISSUES_MEDIAN);
         reviews_score = exponential_cdf (reviews p / REVIEWS_MEDIAN);
         stars_score = log_normal_cdf (stars p / STARS_MEDIAN);
         followers_score = log_normal_cdf (followers p / FOLLOWERS_MEDIAN);
         weighted_sum =
           COMMITS_WEIGHT * commits_score + PRS_WEIGHT * prs_score +
           ISSUES_WEIGHT * issues_score + REVIEWS_WEIGHT * reviews_score +
           STARS_WEIGHT * stars_score + FOLLOWERS_WEIGHT * followers_score;
         rank = 1 - weighted_sum / TOTAL_WEIGHT;
         lvl = level_for (rank * 100);
         det = \<lparr> d_level = lvl, d_percentile = rank * 100,
           scores = \<lparr> m_commits = commits_score, m_prs = prs_score,
             m_issues = issues_score, m_reviews = reviews_score, m_stars = stars_score,
             m_followers = followers_score \<rparr>,
           weights = \<lparr> m_commits = COMMITS_WEIGHT, m_prs = PRS_WEIGHT,
             m_issues = ISSUES_WEIGHT, m_reviews = REVIEWS_WEIGHT, m_stars = STARS_WEIGHT,
             m_followers = FOLLOWERS_WEIGHT \<rparr>,
           weighted_contributions = \<lparr> m_commits = COMMITS_WEIGHT * commits_score,
             m_prs = PRS_WEIGHT * prs_score, m_issues = ISSUES_WEIGHT * issues_score,
             m_reviews = REVIEWS_WEIGHT * reviews_score,
             m_stars = STARS_WEIGHT * stars_score,
             m_followers = FOLLOWERS_WEIGHT * followers_score \<rparr>,
           total_weighted_score = weighted_sum, max_possible_score = TOTAL_WEIGHT \<rparr>
     in \<lparr> level = lvl, percentile = rank * 100, detailed = det \<rparr>)"

text \<open>The documented domain: the six scored metrics are non-negative.\<close>

definition non_negative :: "real params \<Rightarrow> bool" where
  "non_negative p \<longleftrightarrow>
     0 \<le> commits p \<and> 0 \<le> prs p \<and> 0 \<le> issues p \<and> 0 \<le> reviews p \<and> 0 \<le> stars p \<and>
     0 \<le> followers p"

text \<open>
  The value of \<^verbatim>\<open>weighted_sum\<close> with the constants of the source written in, as a
  function of the input; \<open>percentile_calculateRank\<close> and \<open>total_calculateRank\<close>
  below relate it to the result of \<open>calculateRank\<close>.
\<close>

definition weighted_sum_of :: "real params \<Rightarrow> real" where
  "weighted_sum_of p =
     15 * exponential_cdf (commits p / (if all_commits p then 400 else 80)) +
     3 * exponential_cdf (prs p / 15) +
     1 / 2 * exponential_cdf (issues p / 2) +
     1 / 2 * exponential_cdf (reviews p / 2) +
     5 / 100 * log_normal_cdf (stars p / (1 / 10)) +
     1 / 2 * log_normal_cdf (followers p / 2)"

section \<open>The same function in binary64 arithmetic\<close>

subsection \<open>Binary64 numbers\<close>

text \<open>
  A binary64 value is a finite number, an infinity or \<^verbatim>\<open>NaN\<close>. A finite value is given by
  the real number it denotes. The sign of zero is not kept: in \<^verbatim>\<open>calculateRank\<close> the only
  divisor that can be zero is the sum \<open>1 + x\<close>, which is \<open>+0\<close> when it is zero, and
  \<^verbatim>\<open><=\<close> does not tell the two zeros apart.
\<close>

datatype f64 = Fin real | PosInf | NegInf | NaN

text \<open>
  Rounding to nearest, ties to even. \<open>binade x\<close> is the exponent \<open>e\<close> with
  \<open>2 powi e \<le> \<bar>x\<bar> < 2 powi (e + 1)\<close>, and \<open>- 1022\<close> in the subnormal range; the
  doubles of that binade are the multiples of \<open>quantum x = 2 powi (e - 52)\<close>, and
  \<open>nearest x\<close> is the multiple nearest to \<open>x\<close>. A result of magnitude \<open>2 ^ 1024\<close> or
  more overflows to an infinity.
\<close>

definition round_even :: "real \<Rightarrow> int" where
  "round_even x =
     (let n = \<lfloor>x\<rfloor>; d = x - of_int n
      in if d < 1 / 2 then n else if 1 / 2 < d then n + 1 else if even n then n else n + 1)"

definition binade :: "real \<Rightarrow> int" where
  "binade x = (if \<bar>x\<bar> < 2 powi (- 1022) then - 1022 else \<lfloor>log 2 \<bar>x\<bar>\<rfloor>)"

definition quantum :: "real \<Rightarrow> real" where
  "quantum x = 2 powi (binade x - 52)"

definition nearest :: "real \<Rightarrow> real" where
  "nearest x = of_int (round_even (x / quantum x)) * quantum x"

definition round64 :: "real \<Rightarrow> f64" where
  "round64 x =
     (if 2 ^ 1024 \<le> \<bar>nearest x\<bar> then (if 0 < x then PosInf else NegInf) else Fin (nearest x))"

subsection \<open>Operations\<close>

text \<open>
  The operators \<^verbatim>\<open>-x\<close>, \<^verbatim>\<open>+\<close>, \<^verbatim>\<open>-\<close>, \<^verbatim>\<open>*\<close>, \<^verbatim>\<open>/\<close> and \<^verbatim>\<open><=\<close> on numbers, and
  \<^verbatim>\<open>2 ** y\<close>. On finite operands each is the exact result, rounded; \<^verbatim>\<open>2 ** y\<close> is taken
  to be correctly rounded. The power of an engine may differ from this in the last place.
  The proofs below use the exact powers at 0 and \<open>- 1\<close>, the underflow at \<open>- 2000\<close>, and
  otherwise only bounds on the rounded power and that it is monotone.
\<close>

fun f64_neg :: "f64 \<Rightarrow> f64" where
  "f64_neg (Fin a) = Fin (- a)"
| "f64_neg PosInf = NegInf"
| "f64_neg NegInf = PosInf"
| "f64_neg NaN = NaN"

fun f64_add :: "f64 \<Rightarrow> f64 \<Rightarrow> f64" where
  "f64_add (Fin a) (Fin b) = round64 (a + b)"
| "f64_add NaN y = NaN"
| "f64_add x NaN = NaN"
| "f64_add PosInf NegInf = NaN"
| "f64_add NegInf PosInf = NaN"
| "f64_add PosInf y = PosInf"
| "f64_add x PosInf = PosInf"
| "f64_add NegInf y = NegInf"
| "f64_add x NegInf = NegInf"

definition f64_sub :: "f64 \<Rightarrow> f64 \<Rightarrow> f64" where
  "f64_sub x y = f64_add x (f64_neg y)"

fun f64_mul :: "f64 \<Rightarrow> f64 \<Rightarrow> f64" where
  "f64_mul (Fin a) (Fin b) = round64 (a * b)"
| "f64_mul NaN y = NaN"
| "f64_mul x NaN = NaN"
| "f64_mul (Fin a) PosInf = (if a = 0 then NaN else if 0 < a then PosInf else NegInf)"
| "f64_mul (Fin a) NegInf = (if a = 0 then NaN else if 0 < a then NegInf else PosInf)"
| "f64_mul PosInf (Fin b) = (if b = 0 then NaN else if 0 < b then PosInf else NegInf)"
| "f64_mul NegInf (Fin b) = (if b = 0 then NaN else if 0 < b then NegInf else PosInf)"
| "f64_mul PosInf PosInf = PosInf"
| "f64_mul NegInf NegInf = PosInf"
| "f64_mul PosInf NegInf = NegInf"
| "f64_mul NegInf PosInf = NegInf"

fun f64_div :: "f64 \<Rightarrow> f64 \<Rightarrow> f64" where
  "f64_div (Fin a) (Fin b) =
     (if b = 0 then (if a = 0 then NaN else if 0 < a then PosInf else NegInf)
      else round64 (a / b))"
| "f64_div NaN y = NaN"
| "f64_div x NaN = NaN"
| "f64_div (Fin a) y = Fin 0"
| "f64_div PosInf (Fin b) = (if 0 \<le> b then PosInf else NegInf)"
| "f64_div NegInf (Fin b) = (if 0 \<le> b then NegInf else PosInf)"
| "f64_div x y = NaN"

fun f64_pow2 :: "f64 \<Rightarrow> f64" where
  "f64_pow2 (Fin y) = round64 (2 powr y)"
| "f64_pow2 PosInf = PosInf"
| "f64_pow2 NegInf = Fin 0"
| "f64_pow2 NaN = NaN"

fun f64_le :: "f64 \<Rightarrow> f64 \<Rightarrow> bool" where
  "f64_le (Fin a) (Fin b) \<longleftrightarrow> a \<le> b"
| "f64_le NaN y \<longleftrightarrow> False"
| "f64_le x NaN \<longleftrightarrow> False"
| "f64_le NegInf y \<longleftrightarrow> True"
| "f64_le x PosInf \<longleftrightarrow> True"
| "f64_le x y \<longleftrightarrow> False"

subsection \<open>calculateRank in binary64\<close>

text \<open>A numeric literal of the source denotes the double nearest to it.\<close>

definition exponential_cdf_f64 :: "f64 \<Rightarrow> f64" where
  "exponential_cdf_f64 x = f64_sub (round64 1) (f64_pow2 (f64_neg x))"

definition log_normal_cdf_f64 :: "f64 \<Rightarrow> f64" where
  "log_normal_cdf_f64 x = f64_div x (f64_add (round64 1) x)"

definition THRESHOLDS_f64 :: "f64 list" where
  "THRESHOLDS_f64 = map round64 THRESHOLDS"

definition calculateRank_f64 :: "f64 params \<Rightarrow> f64 rank_result" where
  "calculateRank_f64 p =
    (let COMMITS_MEDIAN = (if all_commits p then round64 400 else round64 80);
         COMMITS_WEIGHT = round64 15;
         PRS_MEDIAN = round64 15; PRS_WEIGHT = round64 3;
         ISSUES_MEDIAN = round64 2; ISSUES_WEIGHT = round64 (1 / 2);
         REVIEWS_MEDIAN = round64 2; REVIEWS_WEIGHT = round64 (1 / 2);
         STARS_MEDIAN = round64 (1 / 10); STARS_WEIGHT = round64 (5 / 100);
         FOLLOWERS_MEDIAN = round64 2; FOLLOWERS_WEIGHT = round64 (1 / 2);
         TOTAL_WEIGHT =
           f64_add (f64_add (f64_add (f64_add (f64_add COMMITS_WEIGHT PRS_WEIGHT)
             ISSUES_WEIGHT) REVIEWS_WEIGHT) STARS_WEIGHT) FOLLOWERS_WEIGHT;
         commits_score = exponential_cdf_f64 (f64_div (commits p) COMMITS_MEDIAN);
         prs_score = exponential_cdf_f64 (f64_div (prs p) PRS_MEDIAN);
         issues_score = exponential_cdf_f64 (f64_div (issues p) ISSUES_MEDIAN);
         reviews_score = exponential_cdf_f64 (f64_div (reviews p) REVIEWS_MEDIAN);
         stars_score = log_normal_cdf_f64 (f64_div (stars p) STARS_MEDIAN);
         followers_score = log_normal_cdf_f64 (f64_div (followers p) FOLLOWERS_MEDIAN);
         weighted_sum =
           f64_add (f64_add (f64_add (f64_add (f64_add
             (f64_mul COMMITS_WEIGHT commits_score) (f64_mul PRS_WEIGHT prs_score))
             (f64_mul ISSUES_WEIGHT issues_score)) (f64_mul REVIEWS_WEIGHT reviews_score))
             (f64_mul STARS_WEIGHT stars_score)) (f64_mul FOLLOWERS_WEIGHT followers_score);
         rank = f64_sub (round64 1) (f64_div weighted_sum TOTAL_WEIGHT);
         pct = f64_mul rank (round64 100);
         lvl = element_at LEVELS (findIndex (\<lambda>t. f64_le pct t) THRESHOLDS_f64);
         det = \<lparr> d_level = lvl, d_percentile = pct,
           scores = \<lparr> m_commits = commits_score, m_prs = prs_score,
             m_issues = issues_score, m_reviews = reviews_score, m_stars = stars_score,
             m_followers = followers_score \<rparr>,
           weights = \<lparr> m_commits = COMMITS_WEIGHT, m_prs = PRS_WEIGHT,
             m_issues = ISSUES_WEIGHT, m_reviews = REVIEWS_WEIGHT, m_stars = STARS_WEIGHT,
             m_followers = FOLLOWERS_WEIGHT \<rparr>,
           weighted_contributions = \<lparr> m_commits = f64_mul COMMITS_WEIGHT commits_score,
             m_prs = f64_mul PRS_WEIGHT prs_score,
             m_issues = f64_mul ISSUES_WEIGHT issues_score,
             m_reviews = f64_mul REVIEWS_WEIGHT reviews_score,
             m_stars = f64_mul STARS_WEIGHT stars_score,
             m_followers = f64_mul FOLLOWERS_WEIGHT followers_score \<rparr>,
           total_weighted_score = weighted_sum, max_possible_score = TOTAL_WEIGHT \<rparr>
     in \<lparr> level = lvl, percentile = pct, detailed = det \<rparr>)"

text \<open>
  The binary64 inputs considered below: every scored metric is a non-negative finite number
  of at most \<open>10 ^ 300\<close>, so that no quotient by a median overflows. Above about
  \<open>1.8 * 10 ^ 307\<close> the quotient \<^verbatim>\<open>stars / 0.1\<close> is \<^verbatim>\<open>Infinity\<close> and the score
  \<^verbatim>\<open>Infinity / Infinity\<close> is \<^verbatim>\<open>NaN\<close>; such inputs are outside the statements below.
\<close>

fun moderate :: "f64 \<Rightarrow> bool" where
  "moderate (Fin x) \<longleftrightarrow> 0 \<le> x \<and> x \<le> 10 ^ 300"
| "moderate y \<longleftrightarrow> False"

definition moderate_input :: "f64 params \<Rightarrow> bool" where
  "moderate_input p \<longleftrightarrow>
     moderate (commits p) \<and> moderate (prs p) \<and> moderate (issues p) \<and> moderate (reviews p) \<and>
     moderate (stars p) \<and> moderate (followers p)"

text \<open>
  The input \<^verbatim>\<open>{all_commits: false, commits: 160000, prs: 30000, issues: 4000, reviews: 4000,
  repos: 0, stars: 1e17, followers: 1e17}\<close>, in the two readings.
\<close>

definition large_input :: "real params" where
  "large_input = \<lparr> all_commits = False, commits = 160000, prs = 30000,
     issues = 4000, reviews = 4000, repos = 0,
     stars = 100000000000000000, followers = 100000000000000000 \<rparr>"

definition large_input_f64 :: "f64 params" where
  "large_input_f64 = \<lparr> all_commits = False, commits = Fin 160000, prs = Fin 30000,
     issues = Fin 4000, reviews = Fin 4000, repos = Fin 0,
     stars = Fin 100000000000000000, followers = Fin 100000000000000000 \<rparr>"



definition followers_input_lo_f64 :: "f64 params" where
  "followers_input_lo_f64 = \<lparr> all_commits = False, commits = Fin 0, prs = Fin 0,
     issues = Fin 0, reviews = Fin 0, repos = Fin 0, stars = Fin 28,
     followers = Fin 18014398509481984 \<rparr>"

definition followers_input_hi_f64 :: "f64 params" where
  "followers_input_hi_f64 = \<lparr> all_commits = False, commits = Fin 0, prs = Fin 0,
     issues = Fin 0, reviews = Fin 0, repos = Fin 0, stars = Fin 28,
     followers = Fin 18014398509481988 \<rparr>"

text \<open>
  Two inputs that differ in \<^verbatim>\<open>stars\<close> only, \<open>900719925474100\<close> and \<open>900719925474101\<close>,
  with \<^verbatim>\<open>followers = 75\<close> and every other metric zero.
\<close>

definition stars_input_lo_f64 :: "f64 params" where
  "stars_input_lo_f64 = \<lparr> all_commits = False, commits = Fin 0, prs = Fin 0,
     issues = Fin 0, reviews = Fin 0, repos = Fin 0, stars = Fin 900719925474100,
     followers = Fin 75 \<rparr>"

definition stars_input_hi_f64 :: "f64 params" where
  "stars_input_hi_f64 = \<lparr> all_commits = False, commits = Fin 0, prs = Fin 0,
     issues = Fin 0, reviews = Fin 0, repos = Fin 0, stars = Fin 900719925474101,
     followers = Fin 75 \<rparr>"

text \<open>An input with every scored metric at or near its median.\<close>

definition median_input_f64 :: "f64 params" where
  "median_input_f64 = \<lparr> all_commits = False, commits = Fin 80, prs = Fin 15,
     issues = Fin 2, reviews = Fin 2, repos = Fin 10, stars = Fin 1, followers = Fin 2 \<rparr>"

text \<open>
  The weighted sum of \<open>calculateRank_f64\<close> as a function of the contribution \<open>k\<close> of
  commits, the only term that depends on \<^verbatim>\<open>all_commits\<close>; the medians and weights are
  written as the doubles they round to.
\<close>

definition weighted_sum_f64 :: "f64 \<Rightarrow> f64 params \<Rightarrow> f64" where
  "weighted_sum_f64 k p =
     f64_add (f64_add (f64_add (f64_add (f64_add k
       (f64_mul (Fin 3) (exponential_cdf_f64 (f64_div (prs p) (Fin 15)))))
       (f64_mul (Fin (1 / 2)) (exponential_cdf_f64 (f64_div (issues p) (Fin 2)))))
       (f64_mul (Fin (1 / 2)) (exponential_cdf_f64 (f64_div (reviews p) (Fin 2)))))
       (f64_mul (Fin (3602879701896397 / 72057594037927936))
         (log_normal_cdf_f64 (f64_div (stars p) (Fin (3602879701896397 / 36028797018963968))))))
       (f64_mul (Fin (1 / 2)) (log_normal_cdf_f64 (f64_div (followers p) (Fin 2))))"

section \<open>Properties\<close>

subsection \<open>The distribution functions\<close>

lemma exponential_cdf_lt_1: "exponential_cdf x < 1"
  by (simp add: exponential_cdf_def)

lemma exponential_cdf_nonneg: "0 \<le> x \<Longrightarrow> 0 \<le> exponential_cdf x"
  using powr_mono [of "- x" 0 2] by (simp add: exponential_cdf_def)


lemma log_normal_cdf_nonneg: "0 \<le> x \<Longrightarrow> 0 \<le> log_normal_cdf x"
  by (simp add: log_normal_cdf_def)

lemma log_normal_cdf_lt_1: "0 \<le> x \<Longrightarrow> log_normal_cdf x < 1"
  by (simp add: log_normal_cdf_def)


lemma exponential_cdf_tendsto_1: "(exponential_cdf \<longlongrightarrow> 1) at_top"
proof -
  have "LIM x at_top. ln 2 * (x::real) :> at_top"
    by (rule filterlim_tendsto_pos_mult_at_top [OF tendsto_const _ filterlim_ident]) simp
  then have "LIM x at_top. - (ln 2 * (x::real)) :> at_bot"
    by (simp add: filterlim_uminus_at_top)
  then have "((\<lambda>x::real. exp (- (ln 2 * x))) \<longlongrightarrow> 0) at_top"
    by (rule filterlim_compose [OF exp_at_bot])
  then have "((\<lambda>x::real. 1 - exp (- (ln 2 * x))) \<longlongrightarrow> 1 - 0) at_top"
    by (intro tendsto_diff tendsto_const)
  moreover have "exponential_cdf = (\<lambda>x. 1 - exp (- (ln 2 * x)))"
    by (rule ext) (simp add: exponential_cdf_def powr_def mult.commute)
  ultimately show ?thesis by simp
qed

lemma log_normal_cdf_tendsto_1: "(log_normal_cdf \<longlongrightarrow> 1) at_top"
proof -
  have "LIM x at_top. 1 + x :> (at_top :: real filter)"
    by (rule filterlim_tendsto_add_at_top [OF tendsto_const filterlim_ident])
  then have "((\<lambda>x::real. 1 / (1 + x)) \<longlongrightarrow> 0) at_top"
    by (rule real_tendsto_divide_at_top [OF tendsto_const])
  then have "((\<lambda>x::real. 1 - 1 / (1 + x)) \<longlongrightarrow> 1 - 0) at_top"
    by (intro tendsto_diff tendsto_const)
  moreover have "eventually (\<lambda>x::real. 1 - 1 / (1 + x) = log_normal_cdf x) at_top"
    using eventually_gt_at_top [of "0::real"]
    by eventually_elim (simp add: log_normal_cdf_def field_simps)
  ultimately show ?thesis
    by (simp add: tendsto_cong)
qed

subsection \<open>The fields of the result\<close>

lemma percentile_calculateRank:
  "percentile (calculateRank p) = (1 - weighted_sum_of p / (391 / 20)) * 100"
  by (simp add: calculateRank_def Let_def weighted_sum_of_def)

lemma level_calculateRank: "level (calculateRank p) = level_for (percentile (calculateRank p))"
  by (simp add: calculateRank_def Let_def)

lemma total_calculateRank:
  "total_weighted_score (detailed (calculateRank p)) = weighted_sum_of p"
  by (simp add: calculateRank_def Let_def weighted_sum_of_def)

lemma max_calculateRank: "max_possible_score (detailed (calculateRank p)) = 391 / 20"
  by (simp add: calculateRank_def Let_def)

lemma weighted_sum_nonneg:
  assumes "non_negative p"
  shows "0 \<le> weighted_sum_of p"
proof -
  have "0 \<le> exponential_cdf (commits p / (if all_commits p then 400 else 80))"
    "0 \<le> exponential_cdf (prs p / 15)" "0 \<le> exponential_cdf (issues p / 2)"
    "0 \<le> exponential_cdf (reviews p / 2)" "0 \<le> log_normal_cdf (stars p / (1 / 10))"
    "0 \<le> log_normal_cdf (followers p / 2)"
    using assms by (simp_all add: non_negative_def exponential_cdf_nonneg log_normal_cdf_nonneg)
  then show ?thesis
    unfolding weighted_sum_of_def by linarith
qed

lemma weighted_sum_less:
  assumes "non_negative p"
  shows "weighted_sum_of p < 391 / 20"
proof -
  have "exponential_cdf (commits p / (if all_commits p then 400 else 80)) < 1"
    "exponential_cdf (prs p / 15) < 1" "exponential_cdf (issues p / 2) < 1"
    "exponential_cdf (reviews p / 2) < 1" "log_normal_cdf (stars p / (1 / 10)) < 1"
    "log_normal_cdf (followers p / 2) < 1"
    using assms by (simp_all add: non_negative_def exponential_cdf_lt_1 log_normal_cdf_lt_1)
  then show ?thesis
    unfolding weighted_sum_of_def by linarith
qed



subsection \<open>The first index found\<close>

lemma findIndex_from_cases:
  "findIndex_from P ts k = - 1 \<and> (\<forall>t \<in> set ts. \<not> P t) \<or>
   (\<exists>i < length ts. findIndex_from P ts k = k + int i \<and> P (ts ! i) \<and> (\<forall>j < i. \<not> P (ts ! j)))"
proof (induction ts arbitrary: k)
  case Nil
  show ?case by simp
next
  case (Cons t ts)
  show ?case
  proof (cases "P t")
    case True
    then have "findIndex_from P (t # ts) k = k + int 0 \<and> P ((t # ts) ! 0) \<and>
      (\<forall>j < 0. \<not> P ((t # ts) ! j))"
      by simp
    then show ?thesis by blast
  next
    case False
    from Cons.IH [of "k + 1"] show ?thesis
    proof (elim disjE conjE exE)
      assume "findIndex_from P ts (k + 1) = - 1" and "\<forall>t \<in> set ts. \<not> P t"
      with False show ?thesis by simp
    next
      fix i
      assume i: "i < length ts" "findIndex_from P ts (k + 1) = k + 1 + int i" "P (ts ! i)"
        "\<forall>j < i. \<not> P (ts ! j)"
      have "\<forall>j < Suc i. \<not> P ((t # ts) ! j)"
        using False i(4) by (simp add: nth_Cons split: nat.split)
      with False i have "Suc i < length (t # ts) \<and>
        findIndex_from P (t # ts) k = k + int (Suc i) \<and> P ((t # ts) ! Suc i) \<and>
        (\<forall>j < Suc i. \<not> P ((t # ts) ! j))"
        by simp
      then show ?thesis by blast
    qed
  qed
qed

lemma length_THRESHOLDS: "length THRESHOLDS = 12"
  by (simp add: THRESHOLDS_def)

lemma length_LEVELS: "length LEVELS = 12"
  by (simp add: LEVELS_def)

lemma level_for_threshold:
  "i < length THRESHOLDS \<Longrightarrow> level_for (THRESHOLDS ! i) = Some (LEVELS ! i)"
proof -
  assume "i < length THRESHOLDS"
  then have "i \<in> {0, 1, 2, 3, 4, 5, 6, 7, 8, 9, 10, 11}"
    unfolding length_THRESHOLDS by simp arith
  then show ?thesis
    by (elim insertE emptyE)
      (simp_all add: level_for_def findIndex_def THRESHOLDS_def LEVELS_def element_at_def)
qed

subsection \<open>An input outside the documented domain\<close>

text \<open>
  The function does not check its input. With \<open>commits = - 80\<close> and every other metric zero
  the score of commits is \<open>1 - 2 = - 1\<close>, the percentile is above 100 and no level is found.
\<close>

lemma negative_commits_no_level:
  "percentile (calculateRank \<lparr>all_commits = False, commits = - 80, prs = 0, issues = 0,
      reviews = 0, repos = 0, stars = 0, followers = 0\<rparr>) = 69100 / 391 \<and>
   level (calculateRank \<lparr>all_commits = False, commits = - 80, prs = 0, issues = 0,
      reviews = 0, repos = 0, stars = 0, followers = 0\<rparr>) = None"
proof -
  let ?p = "\<lparr>all_commits = False, commits = - 80, prs = 0, issues = 0,
      reviews = 0, repos = 0, stars = 0, followers = 0\<rparr>"
  have pct: "percentile (calculateRank ?p) = 69100 / 391"
    by (simp add: percentile_calculateRank weighted_sum_of_def exponential_cdf_def
        log_normal_cdf_def)
  have "level_for (69100 / 391) = None"
    by (simp add: level_for_def findIndex_def THRESHOLDS_def element_at_def)
  then have "level (calculateRank ?p) = None"
    unfolding level_calculateRank pct .
  with pct show ?thesis
    by (rule conjI)
qed

subsection \<open>Rounding to binary64\<close>

lemma round_even_of_int: "round_even (of_int n) = n"
  by (simp add: round_even_def)

lemma round_even_cases:
  "round_even x = \<lfloor>x\<rfloor> \<and> x - of_int \<lfloor>x\<rfloor> \<le> 1 / 2 \<or>
   round_even x = \<lfloor>x\<rfloor> + 1 \<and> 1 / 2 \<le> x - of_int \<lfloor>x\<rfloor>"
  by (simp add: round_even_def Let_def)

lemma round_even_mono:
  assumes "a \<le> b"
  shows "round_even a \<le> round_even b"
proof (cases "\<lfloor>a\<rfloor> = \<lfloor>b\<rfloor>")
  case True
  have "a - of_int \<lfloor>a\<rfloor> \<le> b - of_int \<lfloor>b\<rfloor>"
    using assms True by simp
  then show ?thesis
    using True by (auto simp: round_even_def Let_def)
next
  case False
  with assms have "\<lfloor>a\<rfloor> + 1 \<le> \<lfloor>b\<rfloor>"
    using floor_mono [of a b] by linarith
  moreover have "round_even a \<le> \<lfloor>a\<rfloor> + 1"
    using round_even_cases [of a] by linarith
  moreover have "\<lfloor>b\<rfloor> \<le> round_even b"
    using round_even_cases [of b] by linarith
  ultimately show ?thesis by linarith
qed

lemma powi_pos: "0 < (2::real) powi k"
  by simp

lemma powi_less_imp_le:
  assumes "(2::real) powi a < 2 powi (b + 1)"
  shows "a \<le> b"
proof (rule ccontr)
  assume "\<not> a \<le> b"
  then have "b + 1 \<le> a"
    by simp
  then have "(2::real) powi (b + 1) \<le> 2 powi a"
    by (intro power_int_increasing) simp_all
  with assms show False
    by linarith
qed

lemma binade_ge: "- 1022 \<le> binade x"
proof (cases "\<bar>x\<bar> < 2 powi (- 1022)")
  case True
  then show ?thesis by (simp add: binade_def)
next
  case False
  then have le: "2 powi (- 1022) \<le> \<bar>x\<bar>" by simp
  have "(2::real) powr real_of_int (- 1022) = 2 powi (- 1022)"
    by (rule powr_real_of_int') simp_all
  moreover have "0 < \<bar>x\<bar>"
    using le powi_pos [of "- 1022"] by linarith
  ultimately have "real_of_int (- 1022) \<le> log 2 \<bar>x\<bar>"
    using le by (subst le_log_iff) simp_all
  then have "- 1022 \<le> \<lfloor>log 2 \<bar>x\<bar>\<rfloor>"
    by (simp add: le_floor_iff)
  with False show ?thesis by (simp add: binade_def)
qed

lemma binade_bounds:
  assumes "2 powi (- 1022) \<le> \<bar>x\<bar>"
  shows "2 powi binade x \<le> \<bar>x\<bar> \<and> \<bar>x\<bar> < 2 powi (binade x + 1)"
proof -
  have pos: "0 < \<bar>x\<bar>"
    using assms powi_pos [of "- 1022"] by linarith
  have b: "binade x = \<lfloor>log 2 \<bar>x\<bar>\<rfloor>"
    using assms by (simp add: binade_def)
  have p: "(2::real) powr real_of_int k = 2 powi k" for k
    by (rule powr_real_of_int') simp_all
  have "2 powr real_of_int (binade x) \<le> \<bar>x\<bar> \<and> \<bar>x\<bar> < 2 powr real_of_int (binade x + 1)"
    using floor_log_eq_powr_iff [of "\<bar>x\<bar>" 2 "binade x"] pos b by simp
  then show ?thesis
    unfolding p .
qed

lemma binade_upper: "\<bar>x\<bar> < 2 powi (binade x + 1)"
proof (cases "\<bar>x\<bar> < 2 powi (- 1022)")
  case True
  moreover have "(2::real) powi (- 1022) \<le> 2 powi (- 1022 + 1)"
    by (rule power_int_increasing) simp_all
  ultimately show ?thesis by (simp add: binade_def)
next
  case False
  then show ?thesis using binade_bounds [of x] by simp
qed

lemma binade_eqI:
  assumes "2 powi e \<le> \<bar>x\<bar>" and "\<bar>x\<bar> < 2 powi (e + 1)" and "- 1022 \<le> e"
  shows "binade x = e"
proof -
  have "2 powi (- 1022) \<le> (2::real) powi e"
    using assms(3) by (intro power_int_increasing) simp_all
  then have n: "2 powi (- 1022) \<le> \<bar>x\<bar>"
    using assms(1) by linarith
  from binade_bounds [OF n] assms(1,2)
  have "(2::real) powi e < 2 powi (binade x + 1)" "(2::real) powi binade x < 2 powi (e + 1)"
    by linarith+
  then show ?thesis
    using powi_less_imp_le [of e "binade x"] powi_less_imp_le [of "binade x" e] by linarith
qed

lemma binade_mono:
  assumes "\<bar>x\<bar> \<le> \<bar>y\<bar>"
  shows "binade x \<le> binade y"
proof (cases "\<bar>x\<bar> < 2 powi (- 1022)")
  case True
  then show ?thesis using binade_ge [of y] by (simp add: binade_def)
next
  case False
  then have "2 powi (- 1022) \<le> \<bar>x\<bar>" by simp
  from binade_bounds [OF this] have "2 powi binade x \<le> \<bar>y\<bar>"
    using assms by linarith
  with binade_upper [of y] have "(2::real) powi binade x < 2 powi (binade y + 1)"
    by linarith
  then show ?thesis
    by (rule powi_less_imp_le)
qed

lemma powi_top: "(2::real) powi (e + 1) = 2 ^ 53 * 2 powi (e - 52)"
proof -
  have "(2::real) powi (53 + (e - 52)) = 2 powi 53 * 2 powi (e - 52)"
    by (rule power_int_add) simp
  moreover have "53 + (e - 52) = e + 1"
    by simp
  ultimately show ?thesis
    by simp
qed

lemma powi_bot: "(2::real) powi e = 2 ^ 52 * 2 powi (e - 52)"
proof -
  have "(2::real) powi (52 + (e - 52)) = 2 powi 52 * 2 powi (e - 52)"
    by (rule power_int_add) simp
  then show ?thesis
    by simp
qed

lemma quantum_pos: "0 < quantum x"
  by (simp add: quantum_def)

lemma nearest_nonneg: "0 \<le> x \<Longrightarrow> 0 \<le> nearest x"
proof -
  assume "0 \<le> x"
  then have "0 \<le> x / quantum x"
    using quantum_pos [of x] by simp
  then have "round_even 0 \<le> round_even (x / quantum x)"
    by (rule round_even_mono)
  then have "0 \<le> round_even (x / quantum x)"
    using round_even_of_int [of 0] by simp
  then show ?thesis
    using quantum_pos [of x] by (simp add: nearest_def)
qed

text \<open>The rounded value stays within the binade of the argument, ends included.\<close>

lemma nearest_upper:
  assumes "0 \<le> x"
  shows "nearest x \<le> 2 powi (binade x + 1)"
proof -
  let ?u = "quantum x"
  have "x < 2 powi (binade x + 1)"
    using binade_upper [of x] assms by simp
  also have "(2::real) powi (binade x + 1) = 2 ^ 53 * ?u"
    unfolding quantum_def by (rule powi_top)
  finally have "x / ?u \<le> of_int (2 ^ 53)"
    using quantum_pos [of x] by (simp add: pos_divide_le_eq)
  then have "round_even (x / ?u) \<le> round_even (of_int (2 ^ 53))"
    by (rule round_even_mono)
  then have "round_even (x / ?u) \<le> 2 ^ 53"
    unfolding round_even_of_int .
  then have "real_of_int (round_even (x / ?u)) \<le> 2 ^ 53"
    by (metis of_int_le_iff of_int_numeral of_int_power)
  then have "nearest x \<le> 2 ^ 53 * ?u"
    using quantum_pos [of x] by (simp add: nearest_def)
  also have "2 ^ 53 * ?u = (2::real) powi (binade x + 1)"
    unfolding quantum_def by (rule powi_top [symmetric])
  finally show ?thesis .
qed

lemma nearest_lower:
  assumes "2 powi (- 1022) \<le> x"
  shows "2 powi binade x \<le> nearest x"
proof -
  let ?u = "quantum x"
  have x: "0 \<le> x" "\<bar>x\<bar> = x"
    using assms powi_pos [of "- 1022"] by linarith+
  have eq: "(2::real) powi binade x = 2 ^ 52 * ?u"
    unfolding quantum_def by (rule powi_bot)
  have "2 powi binade x \<le> x"
    using binade_bounds [of x] assms x by simp
  then have "of_int (2 ^ 52) \<le> x / ?u"
    using quantum_pos [of x] by (simp add: eq pos_le_divide_eq)
  then have "round_even (of_int (2 ^ 52)) \<le> round_even (x / ?u)"
    by (rule round_even_mono)
  then have "2 ^ 52 \<le> round_even (x / ?u)"
    unfolding round_even_of_int .
  then have "2 ^ 52 \<le> real_of_int (round_even (x / ?u))"
    by (metis of_int_le_iff of_int_numeral of_int_power)
  then have "2 ^ 52 * ?u \<le> nearest x"
    using quantum_pos [of x] by (simp add: nearest_def)
  then show ?thesis
    unfolding eq .
qed

lemma nearest_mono:
  assumes "0 \<le> x" and "x \<le> y"
  shows "nearest x \<le> nearest y"
proof (cases "binade x = binade y")
  case True
  then have q: "quantum x = quantum y"
    by (simp add: quantum_def)
  have "x / quantum y \<le> y / quantum y"
    using assms(2) quantum_pos [of y] by (simp add: divide_right_mono)
  then have "round_even (x / quantum y) \<le> round_even (y / quantum y)"
    by (rule round_even_mono)
  then show ?thesis
    using quantum_pos [of y] by (simp add: nearest_def q)
next
  case False
  have "binade x \<le> binade y"
    using assms by (intro binade_mono) simp
  with False have lt: "binade x + 1 \<le> binade y"
    by simp
  then have "- 1022 < binade y"
    using binade_ge [of x] by linarith
  then have "\<not> \<bar>y\<bar> < 2 powi (- 1022)"
    by (auto simp: binade_def)
  then have "2 powi (- 1022) \<le> y"
    using assms by simp
  then have "2 powi binade y \<le> nearest y"
    by (rule nearest_lower)
  moreover have "(2::real) powi (binade x + 1) \<le> 2 powi binade y"
    using lt by (intro power_int_increasing) simp_all
  ultimately show ?thesis
    using nearest_upper [OF assms(1)] by linarith
qed

lemma nearest_same_binade:
  assumes "binade (nearest x) = binade x"
  shows "nearest (nearest x) = nearest x"
proof -
  have q: "quantum (nearest x) = quantum x"
    using assms by (simp add: quantum_def)
  have "nearest x / quantum x = of_int (round_even (x / quantum x))"
    using quantum_pos [of x] by (simp add: nearest_def)
  then have "round_even (nearest x / quantum x) = round_even (x / quantum x)"
    by (simp add: round_even_of_int)
  then show ?thesis
    by (simp add: nearest_def [of "nearest x"] q) (simp add: nearest_def)
qed

lemma nearest_power_of_2:
  assumes "- 1022 \<le> k"
  shows "nearest (2 powi k) = 2 powi k"
proof -
  have "(2::real) powi k < 2 powi (k + 1)"
    by (rule power_int_strict_increasing) simp_all
  then have b: "binade (2 powi k) = k"
    using assms by (intro binade_eqI) simp_all
  have q: "quantum (2 powi k) = 2 powi (k - 52)"
    by (simp add: quantum_def b)
  have d: "(2::real) powi k / 2 powi (k - 52) = of_int (2 ^ 52)"
    by (subst powi_bot [of k]) simp
  have "nearest (2 powi k) = of_int (round_even (2 powi k / 2 powi (k - 52))) * 2 powi (k - 52)"
    unfolding nearest_def q ..
  also have "\<dots> = of_int (2 ^ 52) * 2 powi (k - 52)"
    unfolding d round_even_of_int ..
  also have "\<dots> = 2 powi k"
    using powi_bot [of k] by simp
  finally show ?thesis .
qed

lemma binade_small: "\<bar>x\<bar> < 2 powi (- 1022) \<Longrightarrow> binade x = - 1022"
  unfolding binade_def by (rule if_P)

lemma nearest_idem:
  assumes "0 \<le> x"
  shows "nearest (nearest x) = nearest x"
proof (cases "nearest x = 2 powi (binade x + 1)")
  case True
  have "- 1022 \<le> binade x + 1"
    using binade_ge [of x] by linarith
  then show ?thesis
    unfolding True by (rule nearest_power_of_2)
next
  case False
  have a: "0 \<le> nearest x"
    using assms by (rule nearest_nonneg)
  have hi: "nearest x < 2 powi (binade x + 1)"
    using nearest_upper [OF assms] False by simp
  have "binade (nearest x) = binade x"
  proof (cases "x < 2 powi (- 1022)")
    case True
    then have "\<bar>x\<bar> < 2 powi (- 1022)"
      using assms by simp
    then have b: "binade x = - 1022"
      by (rule binade_small)
    show ?thesis
    proof (cases "nearest x < 2 powi (- 1022)")
      case True
      then have "\<bar>nearest x\<bar> < 2 powi (- 1022)"
        using a by simp
      then show ?thesis
        unfolding b by (rule binade_small)
    next
      case False
      then show ?thesis
        using a hi unfolding b by (intro binade_eqI) simp_all
    qed
  next
    case False
    then have "2 powi binade x \<le> nearest x"
      by (intro nearest_lower) simp
    then show ?thesis
      using a hi binade_ge [of x] by (intro binade_eqI) simp_all
  qed
  then show ?thesis
    by (rule nearest_same_binade)
qed

lemma round64_FinD: "round64 x = Fin a \<Longrightarrow> a = nearest x \<and> \<bar>nearest x\<bar> < 2 ^ 1024"
  by (simp add: round64_def split: if_splits)

lemma round64_FinI: "\<bar>nearest x\<bar> < 2 ^ 1024 \<Longrightarrow> round64 x = Fin (nearest x)"
  by (simp add: round64_def)

lemma round64_mono:
  assumes "0 \<le> x" and "x \<le> y" and "round64 y = Fin b"
  shows "\<exists>a. round64 x = Fin a \<and> 0 \<le> a \<and> a \<le> b"
proof -
  have b: "b = nearest y" "\<bar>nearest y\<bar> < 2 ^ 1024"
    using round64_FinD [OF assms(3)] by simp_all
  have "0 \<le> nearest x" "nearest x \<le> nearest y"
    using assms by (simp_all add: nearest_nonneg nearest_mono)
  then show ?thesis
    using b by (simp add: round64_FinI)
qed

lemma round64_idem:
  assumes "0 \<le> x" and "round64 x = Fin a"
  shows "round64 a = Fin a"
proof -
  have a: "a = nearest x" "\<bar>nearest x\<bar> < 2 ^ 1024"
    using round64_FinD [OF assms(2)] by simp_all
  have "nearest a = a"
    unfolding a(1) using assms(1) by (rule nearest_idem)
  then show ?thesis
    using a by (simp add: round64_def)
qed

lemma round64_between:
  assumes "0 \<le> lo" and "round64 lo = Fin lo" and "round64 hi = Fin hi"
    and "lo \<le> x" and "x \<le> hi"
  shows "\<exists>a. round64 x = Fin a \<and> lo \<le> a \<and> a \<le> hi"
proof -
  from round64_mono [OF _ assms(5,3)] assms(1,4)
  obtain a where a: "round64 x = Fin a" "a \<le> hi"
    by auto
  from round64_mono [OF assms(1,4) a(1)] assms(2) have "lo \<le> a"
    by simp
  with a show ?thesis by simp
qed

lemma round64_binade:
  "binade x = e \<Longrightarrow> round64 x =
     (if 2 ^ 1024 \<le> \<bar>real_of_int (round_even (x / 2 powi (e - 52))) * 2 powi (e - 52)\<bar>
      then (if 0 < x then PosInf else NegInf)
      else Fin (real_of_int (round_even (x / 2 powi (e - 52))) * 2 powi (e - 52)))"
  by (simp add: round64_def nearest_def quantum_def)

lemma round_even_small: "0 \<le> t \<Longrightarrow> t < 1 / 2 \<Longrightarrow> round_even t = 0"
proof -
  assume t: "0 \<le> t" "t < 1 / 2"
  then have "\<lfloor>t\<rfloor> = 0"
    by (simp add: floor_eq_iff)
  with t show ?thesis
    by (simp add: round_even_def)
qed

lemma round64_underflow:
  assumes "0 \<le> x" and "x < 2 powi (- 1075)"
  shows "round64 x = Fin 0"
proof -
  have "(2::real) powi (- 1075) < 2 powi (- 1022)"
    by (rule power_int_strict_increasing) simp_all
  with assms have b: "binade x = - 1022"
    by (simp add: binade_def)
  define t where "t = x / 2 powi (- 1074)"
  have "(2::real) powi (- 1075) = 2 powi (- 1074) / 2"
    using power_int_add [of "2::real" "- 1074" "- 1"] by simp
  with assms(2) have "t < 1 / 2"
    by (simp add: t_def pos_divide_less_eq)
  moreover have "0 \<le> t"
    using assms(1) by (simp add: t_def)
  ultimately have "round_even t = 0"
    by (rule round_even_small [rotated])
  then show ?thesis
    unfolding round64_binade [OF b] t_def by simp
qed

lemma round64_pow2_underflow: "y < - 1075 \<Longrightarrow> round64 (2 powr y) = Fin 0"
proof -
  assume "y < - 1075"
  then have "2 powr y < (2::real) powr (- 1075)"
    by (intro powr_less_mono) simp_all
  also have "(2::real) powr (- 1075) = 2 powi (- 1075)"
    using powr_real_of_int' [of "2::real" "- 1075"] by simp
  finally show ?thesis
    by (simp add: round64_underflow)
qed

lemma round64_0: "round64 0 = Fin 0"
  by (simp add: round64_underflow)

lemma round64_1: "round64 1 = Fin 1"
  by (subst round64_binade [OF binade_eqI [of 0]]) (simp_all add: round_even_def Let_def)

lemma round64_2: "round64 2 = Fin 2"
  by (subst round64_binade [OF binade_eqI [of 1]]) (simp_all add: round_even_def Let_def)

lemma round64_3: "round64 3 = Fin 3"
  by (subst round64_binade [OF binade_eqI [of 1]]) (simp_all add: round_even_def Let_def)

lemma round64_15: "round64 15 = Fin 15"
  by (subst round64_binade [OF binade_eqI [of 3]]) (simp_all add: round_even_def Let_def)

lemma round64_80: "round64 80 = Fin 80"
  by (subst round64_binade [OF binade_eqI [of 6]]) (simp_all add: round_even_def Let_def)

lemma round64_400: "round64 400 = Fin 400"
  by (subst round64_binade [OF binade_eqI [of 8]]) (simp_all add: round_even_def Let_def)

lemma round64_100: "round64 100 = Fin 100"
  by (subst round64_binade [OF binade_eqI [of 6]]) (simp_all add: round_even_def Let_def)

lemma round64_half: "round64 (1 / 2) = Fin (1 / 2)"
  by (subst round64_binade [OF binade_eqI [of "- 1"]]) (simp_all add: round_even_def Let_def)

lemma round64_twentieth: "round64 (5 / 100) = Fin (3602879701896397 / 72057594037927936)"
  by (subst round64_binade [OF binade_eqI [of "- 5"]]) (simp_all add: round_even_def Let_def)

lemma round64_tenth: "round64 (1 / 10) = Fin (3602879701896397 / 36028797018963968)"
  by (subst round64_binade [OF binade_eqI [of "- 4"]]) (simp_all add: round_even_def Let_def)

lemma round64_2000: "round64 2000 = Fin 2000"
  by (subst round64_binade [OF binade_eqI [of 10]]) (simp_all add: round_even_def Let_def)

lemma stars_ratio: "round64 (100000000000000000 / (3602879701896397 / 36028797018963968))
   = Fin 1000000000000000000"
  by (subst round64_binade [OF binade_eqI [of 59]]) (simp_all add: round_even_def Let_def)

lemma stars_plus: "round64 (1 + 1000000000000000000) = Fin 1000000000000000000"
  by (subst round64_binade [OF binade_eqI [of 59]]) (simp_all add: round_even_def Let_def)

lemma followers_ratio: "round64 (100000000000000000 / 2) = Fin 50000000000000000"
  by (subst round64_binade [OF binade_eqI [of 55]]) (simp_all add: round_even_def Let_def)

lemma followers_plus: "round64 (1 + 50000000000000000) = Fin 50000000000000000"
  by (subst round64_binade [OF binade_eqI [of 55]]) (simp_all add: round_even_def Let_def)

lemma round64_18: "round64 18 = Fin 18"
  by (subst round64_binade [OF binade_eqI [of 4]]) (simp_all add: round_even_def Let_def)

lemma round64_18_5: "round64 (18 + 1 / 2) = Fin (37 / 2)"
  by (subst round64_binade [OF binade_eqI [of 4]]) (simp_all add: round_even_def Let_def)

lemma round64_19: "round64 (37 / 2 + 1 / 2) = Fin 19"
  by (subst round64_binade [OF binade_eqI [of 4]]) (simp_all add: round_even_def Let_def)

lemma round64_19_05: "round64 (19 + 3602879701896397 / 72057594037927936) =
    Fin (5362098306337997 / 281474976710656)"
  by (subst round64_binade [OF binade_eqI [of 4]]) (simp_all add: round_even_def Let_def)

lemma round64_19_55: "round64 (5362098306337997 / 281474976710656 + 1 / 2) =
    Fin (5502835794693325 / 281474976710656)"
  by (subst round64_binade [OF binade_eqI [of 4]]) (simp_all add: round_even_def Let_def)

lemma round64_twentieth_again: "round64 (3602879701896397 / 72057594037927936) =
    Fin (3602879701896397 / 72057594037927936)"
  by (subst round64_binade [OF binade_eqI [of "- 5"]]) (simp_all add: round_even_def Let_def)

lemma round64_inputs:
  "round64 160000 = Fin 160000" "round64 30000 = Fin 30000" "round64 4000 = Fin 4000"
  "round64 100000000000000000 = Fin 100000000000000000"
proof -
  show "round64 160000 = Fin 160000"
    by (subst round64_binade [OF binade_eqI [of 17]]) (simp_all add: round_even_def Let_def)
  show "round64 30000 = Fin 30000"
    by (subst round64_binade [OF binade_eqI [of 14]]) (simp_all add: round_even_def Let_def)
  show "round64 4000 = Fin 4000"
    by (subst round64_binade [OF binade_eqI [of 11]]) (simp_all add: round_even_def Let_def)
  show "round64 100000000000000000 = Fin 100000000000000000"
    by (subst round64_binade [OF binade_eqI [of 56]]) (simp_all add: round_even_def Let_def)
qed

lemmas round64_facts = round64_0 round64_1 round64_2 round64_3 round64_15 round64_80 round64_400
  round64_100 round64_half round64_twentieth round64_tenth round64_2000 stars_ratio
  followers_ratio round64_18 round64_18_5 round64_19 round64_19_05 round64_19_55
  round64_twentieth_again

subsection \<open>The scores of the large input in binary64\<close>

lemma exp_score_2000: "exponential_cdf_f64 (Fin 2000) = Fin 1"
  using round64_1 by (simp add: exponential_cdf_f64_def round64_pow2_underflow f64_sub_def)

lemma log_score_stars: "log_normal_cdf_f64 (Fin 1000000000000000000) = Fin 1"
  using stars_plus round64_1 by (simp add: log_normal_cdf_f64_def)

lemma log_score_followers: "log_normal_cdf_f64 (Fin 50000000000000000) = Fin 1"
  using followers_plus round64_1 by (simp add: log_normal_cdf_f64_def)

lemma scores_large:
  "scores (detailed (calculateRank_f64 large_input_f64)) =
    \<lparr> m_commits = Fin 1, m_prs = Fin 1, m_issues = Fin 1, m_reviews = Fin 1, m_stars = Fin 1,
      m_followers = Fin 1 \<rparr>"
  using round64_facts
  by (simp add: calculateRank_f64_def large_input_f64_def Let_def
      exp_score_2000 log_score_stars log_score_followers)

lemma percentile_large:
  "percentile (calculateRank_f64 large_input_f64) = Fin 0 \<and>
   level (calculateRank_f64 large_input_f64) = Some ''S++''"
  using round64_facts
  by (simp add: calculateRank_f64_def large_input_f64_def Let_def f64_sub_def
      exp_score_2000 log_score_stars log_score_followers THRESHOLDS_f64_def THRESHOLDS_def
      LEVELS_def findIndex_def element_at_def)

subsection \<open>The range of the result in binary64\<close>

text \<open>
  Rounding is monotone and leaves doubles unchanged, so every intermediate value of
  \<open>calculateRank_f64\<close> stays between the doubles that bound it in exact arithmetic.
\<close>

lemma moderateE:
  assumes "moderate v"
  obtains x where "v = Fin x" and "0 \<le> x" and "x \<le> 10 ^ 300"
  using assms by (cases v) simp_all

lemma round64_2_1004: "round64 (2 ^ 1004) = Fin (2 ^ 1004)"
proof -
  have "nearest (2 powi 1004) = 2 powi 1004"
    by (rule nearest_power_of_2) simp
  then have "nearest (2 ^ 1004) = 2 ^ 1004"
    by simp
  then show ?thesis
    by (simp add: round64_def)
qed

lemma quotient_f64:
  assumes "0 \<le> c" and "c \<le> 10 ^ 300" and "1 / 16 \<le> m"
  shows "\<exists>a. f64_div (Fin c) (Fin m) = Fin a \<and> 0 \<le> a \<and> a \<le> 2 ^ 1004 \<and> round64 a = Fin a"
proof -
  have m: "0 < m" using assms(3) by simp
  have "c * 1 \<le> c * (m * 16)"
    using assms(1,3) by (intro mult_left_mono) simp_all
  then have "c / m \<le> c * 16"
    using m by (simp add: field_simps)
  also have "c * 16 \<le> 10 ^ 300 * 16"
    using assms(2) by simp
  also have "(10::real) ^ 300 * 16 \<le> 2 ^ 1004"
    by simp
  finally have "c / m \<le> 2 ^ 1004" .
  moreover have "0 \<le> c / m"
    using assms(1) m by simp
  ultimately obtain a where a: "round64 (c / m) = Fin a" "0 \<le> a" "a \<le> 2 ^ 1004"
    using round64_mono [OF _ _ round64_2_1004, of "c / m"] by blast
  have "round64 a = Fin a"
    using \<open>0 \<le> c / m\<close> a(1) by (rule round64_idem)
  with a m show ?thesis by simp
qed

lemma exponential_cdf_f64_range:
  assumes "0 \<le> a"
  shows "\<exists>s. exponential_cdf_f64 (Fin a) = Fin s \<and> 0 \<le> s \<and> s \<le> 1"
proof -
  have "0 \<le> 2 powr (- a)" "2 powr (- a) \<le> 1"
    using assms powr_mono [of "- a" 0 2] by simp_all
  then obtain q where q: "round64 (2 powr (- a)) = Fin q" "0 \<le> q" "q \<le> 1"
    using round64_between [OF _ round64_0 round64_1, of "2 powr (- a)"] by auto
  then have "0 \<le> 1 - q" "1 - q \<le> 1"
    by simp_all
  then obtain s where "round64 (1 - q) = Fin s" "0 \<le> s" "s \<le> 1"
    using round64_between [OF _ round64_0 round64_1, of "1 - q"] by auto
  then show ?thesis
    using q(1) round64_1 by (simp add: exponential_cdf_f64_def f64_sub_def)
qed

lemma log_normal_cdf_f64_range:
  assumes "0 \<le> a" and "a \<le> 2 ^ 1004" and "round64 a = Fin a"
  shows "\<exists>s. log_normal_cdf_f64 (Fin a) = Fin s \<and> 0 \<le> s \<and> s \<le> 1"
proof -
  have "round64 (2 ^ 1005) = Fin (2 ^ 1005)"
  proof -
    have "nearest (2 powi 1005) = 2 powi 1005"
      by (rule nearest_power_of_2) simp
    then have "nearest (2 ^ 1005) = 2 ^ 1005"
      by simp
    then show ?thesis
      by (simp add: round64_def)
  qed
  moreover have "1 + a \<le> 2 ^ 1005"
    using assms(2) by simp
  ultimately obtain z where z: "round64 (1 + a) = Fin z" "1 \<le> z"
    using round64_between [OF _ round64_1, of "2 ^ 1005" "1 + a"] assms(1) by auto
  have "a \<le> z"
    using round64_mono [OF assms(1) _ z(1), of ] assms(3) by simp
  then have "0 \<le> a / z" "a / z \<le> 1"
    using assms(1) z(2) by simp_all
  then obtain s where "round64 (a / z) = Fin s" "0 \<le> s" "s \<le> 1"
    using round64_between [OF _ round64_0 round64_1, of "a / z"] by auto
  then show ?thesis
    using z round64_1 by (simp add: log_normal_cdf_f64_def)
qed

lemma f64_mul_weight:
  assumes "0 \<le> w" and "round64 w = Fin w" and "0 \<le> s" and "s \<le> 1"
  shows "\<exists>k. f64_mul (Fin w) (Fin s) = Fin k \<and> 0 \<le> k \<and> k \<le> w"
proof -
  have "0 \<le> w * s" "w * s \<le> w"
    using assms(1,3,4) by (simp_all add: mult_left_le)
  then show ?thesis
    using round64_between [OF _ round64_0 assms(2), of "w * s"] by simp
qed

lemma f64_add_bounded:
  assumes "0 \<le> a" and "a \<le> A" and "0 \<le> b" and "b \<le> B" and "round64 (A + B) = Fin T"
  shows "\<exists>t. f64_add (Fin a) (Fin b) = Fin t \<and> 0 \<le> t \<and> t \<le> T"
  using round64_mono [OF _ _ assms(5), of "a + b"] assms(1-4) by simp

lemma total_weight_f64:
  "f64_add (Fin 15) (Fin 3) = Fin 18"
  "f64_add (Fin 18) (Fin (1 / 2)) = Fin (37 / 2)"
  "f64_add (Fin (37 / 2)) (Fin (1 / 2)) = Fin 19"
  "f64_add (Fin 19) (Fin (3602879701896397 / 72057594037927936)) =
     Fin (5362098306337997 / 281474976710656)"
  "f64_add (Fin (5362098306337997 / 281474976710656)) (Fin (1 / 2)) =
     Fin (5502835794693325 / 281474976710656)"
  using round64_18 round64_18_5 round64_19 round64_19_05 round64_19_55 by simp_all

lemma level_found_f64:
  assumes "pc \<le> 100"
  shows "element_at LEVELS (findIndex (\<lambda>t. f64_le (Fin pc) t) THRESHOLDS_f64) \<noteq> None"
proof -
  let ?P = "\<lambda>t. f64_le (Fin pc) t"
  have len: "length THRESHOLDS_f64 = 12"
    by (simp add: THRESHOLDS_f64_def THRESHOLDS_def)
  have "Fin 100 \<in> set THRESHOLDS_f64"
    using round64_100 by (simp add: THRESHOLDS_f64_def THRESHOLDS_def)
  moreover have "?P (Fin 100)"
    using assms by simp
  ultimately have "\<not> (\<forall>t \<in> set THRESHOLDS_f64. \<not> ?P t)"
    by blast
  with findIndex_from_cases [of ?P THRESHOLDS_f64 0]
  obtain i where "i < length THRESHOLDS_f64" "findIndex ?P THRESHOLDS_f64 = int i"
    unfolding findIndex_def by auto
  then show ?thesis
    by (simp add: element_at_def len length_LEVELS)
qed

lemma calculateRank_f64_in_range:
  assumes "moderate_input p"
  shows "\<exists>t pc. total_weighted_score (detailed (calculateRank_f64 p)) = Fin t \<and>
      max_possible_score (detailed (calculateRank_f64 p)) =
        Fin (5502835794693325 / 281474976710656) \<and>
      0 \<le> t \<and> t \<le> 5502835794693325 / 281474976710656 \<and>
      percentile (calculateRank_f64 p) = Fin pc \<and> 0 \<le> pc \<and> pc \<le> 100 \<and>
      level (calculateRank_f64 p) \<noteq> None"
proof -
  let ?w5 = "3602879701896397 / 72057594037927936 :: real"
  let ?TW = "5502835794693325 / 281474976710656 :: real"
  from assms obtain c where c: "commits p = Fin c" "0 \<le> c" "c \<le> 10 ^ 300"
    unfolding moderate_input_def by (blast elim: moderateE)
  from assms obtain pr where pr: "prs p = Fin pr" "0 \<le> pr" "pr \<le> 10 ^ 300"
    unfolding moderate_input_def by (blast elim: moderateE)
  from assms obtain i where i: "issues p = Fin i" "0 \<le> i" "i \<le> 10 ^ 300"
    unfolding moderate_input_def by (blast elim: moderateE)
  from assms obtain r where r: "reviews p = Fin r" "0 \<le> r" "r \<le> 10 ^ 300"
    unfolding moderate_input_def by (blast elim: moderateE)
  from assms obtain s where s: "stars p = Fin s" "0 \<le> s" "s \<le> 10 ^ 300"
    unfolding moderate_input_def by (blast elim: moderateE)
  from assms obtain f where f: "followers p = Fin f" "0 \<le> f" "f \<le> 10 ^ 300"
    unfolding moderate_input_def by (blast elim: moderateE)
  define m :: real where "m = (if all_commits p then 400 else 80)"
  have M: "(if all_commits p then round64 400 else round64 80) = Fin m" and m: "1 / 16 \<le> m"
    by (simp_all add: m_def round64_400 round64_80)
  \<comment> \<open>the six ratios\<close>
  obtain a1 where a1: "f64_div (Fin c) (Fin m) = Fin a1" "0 \<le> a1"
    using quotient_f64 [OF c(2,3) m] by blast
  obtain a2 where a2: "f64_div (Fin pr) (Fin 15) = Fin a2" "0 \<le> a2"
    using quotient_f64 [OF pr(2,3), of 15] by auto
  obtain a3 where a3: "f64_div (Fin i) (Fin 2) = Fin a3" "0 \<le> a3"
    using quotient_f64 [OF i(2,3), of 2] by auto
  obtain a4 where a4: "f64_div (Fin r) (Fin 2) = Fin a4" "0 \<le> a4"
    using quotient_f64 [OF r(2,3), of 2] by auto
  obtain a5 where a5: "f64_div (Fin s) (Fin (3602879701896397 / 36028797018963968)) = Fin a5"
    "0 \<le> a5" "a5 \<le> 2 ^ 1004" "round64 a5 = Fin a5"
    using quotient_f64 [OF s(2,3), of "3602879701896397 / 36028797018963968"] by auto
  obtain a6 where a6: "f64_div (Fin f) (Fin 2) = Fin a6"
    "0 \<le> a6" "a6 \<le> 2 ^ 1004" "round64 a6 = Fin a6"
    using quotient_f64 [OF f(2,3), of 2] by auto
  \<comment> \<open>the six scores\<close>
  obtain s1 where s1: "exponential_cdf_f64 (Fin a1) = Fin s1" "0 \<le> s1" "s1 \<le> 1"
    using exponential_cdf_f64_range [OF a1(2)] by blast
  obtain s2 where s2: "exponential_cdf_f64 (Fin a2) = Fin s2" "0 \<le> s2" "s2 \<le> 1"
    using exponential_cdf_f64_range [OF a2(2)] by blast
  obtain s3 where s3: "exponential_cdf_f64 (Fin a3) = Fin s3" "0 \<le> s3" "s3 \<le> 1"
    using exponential_cdf_f64_range [OF a3(2)] by blast
  obtain s4 where s4: "exponential_cdf_f64 (Fin a4) = Fin s4" "0 \<le> s4" "s4 \<le> 1"
    using exponential_cdf_f64_range [OF a4(2)] by blast
  obtain s5 where s5: "log_normal_cdf_f64 (Fin a5) = Fin s5" "0 \<le> s5" "s5 \<le> 1"
    using log_normal_cdf_f64_range [OF a5(2,3,4)] by blast
  obtain s6 where s6: "log_normal_cdf_f64 (Fin a6) = Fin s6" "0 \<le> s6" "s6 \<le> 1"
    using log_normal_cdf_f64_range [OF a6(2,3,4)] by blast
  \<comment> \<open>the six weighted contributions\<close>
  obtain k1 where k1: "f64_mul (Fin 15) (Fin s1) = Fin k1" "0 \<le> k1" "k1 \<le> 15"
    using f64_mul_weight [OF _ round64_15 s1(2,3)] by auto
  obtain k2 where k2: "f64_mul (Fin 3) (Fin s2) = Fin k2" "0 \<le> k2" "k2 \<le> 3"
    using f64_mul_weight [OF _ round64_3 s2(2,3)] by auto
  obtain k3 where k3: "f64_mul (Fin (1 / 2)) (Fin s3) = Fin k3" "0 \<le> k3" "k3 \<le> 1 / 2"
    using f64_mul_weight [OF _ round64_half s3(2,3)] by auto
  obtain k4 where k4: "f64_mul (Fin (1 / 2)) (Fin s4) = Fin k4" "0 \<le> k4" "k4 \<le> 1 / 2"
    using f64_mul_weight [OF _ round64_half s4(2,3)] by auto
  obtain k5 where k5: "f64_mul (Fin ?w5) (Fin s5) = Fin k5" "0 \<le> k5" "k5 \<le> ?w5"
    using f64_mul_weight [OF _ round64_twentieth_again s5(2,3)] by auto
  obtain k6 where k6: "f64_mul (Fin (1 / 2)) (Fin s6) = Fin k6" "0 \<le> k6" "k6 \<le> 1 / 2"
    using f64_mul_weight [OF _ round64_half s6(2,3)] by auto
  \<comment> \<open>the weighted sum, term by term\<close>
  obtain t2 where t2: "f64_add (Fin k1) (Fin k2) = Fin t2" "0 \<le> t2" "t2 \<le> 18"
    using f64_add_bounded [OF k1(2,3) k2(2,3)] round64_18 by auto
  obtain t3 where t3: "f64_add (Fin t2) (Fin k3) = Fin t3" "0 \<le> t3" "t3 \<le> 37 / 2"
    using f64_add_bounded [OF t2(2,3) k3(2,3) round64_18_5] by auto
  obtain t4 where t4: "f64_add (Fin t3) (Fin k4) = Fin t4" "0 \<le> t4" "t4 \<le> 19"
    using f64_add_bounded [OF t3(2,3) k4(2,3) round64_19] by auto
  obtain t5 where t5: "f64_add (Fin t4) (Fin k5) = Fin t5" "0 \<le> t5"
    "t5 \<le> 5362098306337997 / 281474976710656"
    using f64_add_bounded [OF t4(2,3) k5(2,3) round64_19_05] by auto
  obtain t6 where t6: "f64_add (Fin t5) (Fin k6) = Fin t6" "0 \<le> t6" "t6 \<le> ?TW"
    using f64_add_bounded [OF t5(2,3) k6(2,3) round64_19_55] by auto
  \<comment> \<open>rank and percentile\<close>
  have "0 \<le> t6 / ?TW" "t6 / ?TW \<le> 1"
    using t6(2,3) by simp_all
  then obtain q where q: "round64 (t6 / ?TW) = Fin q" "0 \<le> q" "q \<le> 1"
    using round64_between [OF _ round64_0 round64_1, of "t6 / ?TW"] by auto
  then have q': "f64_div (Fin t6) (Fin ?TW) = Fin q"
    by simp
  have "0 \<le> 1 - q" "1 - q \<le> 1"
    using q(2,3) by simp_all
  then obtain rk where rk: "round64 (1 - q) = Fin rk" "0 \<le> rk" "rk \<le> 1"
    using round64_between [OF _ round64_0 round64_1, of "1 - q"] by auto
  then have rk': "f64_sub (Fin 1) (Fin q) = Fin rk"
    by (simp add: f64_sub_def)
  have "0 \<le> rk * 100" "rk * 100 \<le> 100"
    using rk(2,3) by simp_all
  then obtain pc where pc: "round64 (rk * 100) = Fin pc" "0 \<le> pc" "pc \<le> 100"
    using round64_between [OF _ round64_0 round64_100, of "rk * 100"] by auto
  then have pc': "f64_mul (Fin rk) (Fin 100) = Fin pc"
    by simp
  note steps = c(1) pr(1) i(1) r(1) s(1) f(1) M round64_1 round64_2 round64_3 round64_15
    round64_100 round64_half round64_twentieth round64_tenth
    a1(1) a2(1) a3(1) a4(1) a5(1) a6(1) s1(1) s2(1) s3(1) s4(1) s5(1) s6(1)
    k1(1) k2(1) k3(1) k4(1) k5(1) k6(1) t2(1) t3(1) t4(1) t5(1) t6(1) total_weight_f64
    q' rk' pc'
  have total: "total_weighted_score (detailed (calculateRank_f64 p)) = Fin t6"
    by (simp only: calculateRank_f64_def Let_def rank_result.select_convs
        detailed_info.select_convs steps)
  have maxi: "max_possible_score (detailed (calculateRank_f64 p)) = Fin ?TW"
    by (simp only: calculateRank_f64_def Let_def rank_result.select_convs
        detailed_info.select_convs steps)
  have pct: "percentile (calculateRank_f64 p) = Fin pc"
    by (simp only: calculateRank_f64_def Let_def rank_result.select_convs
        detailed_info.select_convs steps)
  have "level (calculateRank_f64 p) =
      element_at LEVELS (findIndex (\<lambda>t. f64_le (Fin pc) t) THRESHOLDS_f64)"
    by (simp only: calculateRank_f64_def Let_def rank_result.select_convs
        detailed_info.select_convs steps)
  then have "level (calculateRank_f64 p) \<noteq> None"
    using level_found_f64 [OF pc(3)] by simp
  with total maxi pct t6(2,3) pc(2,3) show ?thesis
    by blast
qed

subsection \<open>Two inputs that differ in followers, in binary64\<close>

text \<open>
  With \<^verbatim>\<open>followers = 2 ^ 54\<close> the ratio is \<open>2 ^ 53\<close>, the sum \<open>1 + 2 ^ 53\<close> rounds down to
  \<open>2 ^ 53\<close> and the score is 1. With \<^verbatim>\<open>followers = 2 ^ 54 + 4\<close> the ratio is \<open>2 ^ 53 + 2\<close>,
  the sum \<open>2 ^ 53 + 3\<close> rounds up to \<open>2 ^ 53 + 4\<close> and the score is below 1. The lemmas
  \<open>lo_\<close> and \<open>hi_\<close> are the roundings of the two computations, one operation each.
\<close>

lemma lo_a5: "round64 (28 / (3602879701896397 / 36028797018963968)) = Fin 280"
  by (subst round64_binade [OF binade_eqI [of 8]]) (simp_all add: round_even_def Let_def)

lemma lo_z5: "round64 (1 + 280) = Fin 281"
  by (subst round64_binade [OF binade_eqI [of 8]]) (simp_all add: round_even_def Let_def)

lemma lo_s5: "round64 (280 / 281) = Fin (8975145164866469 / 9007199254740992)"
  by (subst round64_binade [OF binade_eqI [of "- 1"]]) (simp_all add: round_even_def Let_def)

lemma lo_k5:
  "round64 ((3602879701896397 / 72057594037927936) * (8975145164866469 / 9007199254740992)) =
     Fin (897514516486647 / 18014398509481984)"
  by (subst round64_binade [OF binade_eqI [of "- 5"]]) (simp_all add: round_even_def Let_def)

lemma lo_a6: "round64 (18014398509481984 / 2) = Fin 9007199254740992"
  by (subst round64_binade [OF binade_eqI [of 53]]) (simp_all add: round_even_def Let_def)

lemma lo_z6: "round64 (1 + 9007199254740992) = Fin 9007199254740992"
  by (subst round64_binade [OF binade_eqI [of 53]]) (simp_all add: round_even_def Let_def)

lemma lo_s6: "round64 (9007199254740992 / 9007199254740992) = Fin 1"
  by (subst round64_binade [OF binade_eqI [of 0]]) (simp_all add: round_even_def Let_def)

lemma lo_k6: "round64 (1 / 2 * 1) = Fin (1 / 2)"
  by (subst round64_binade [OF binade_eqI [of "- 1"]]) (simp_all add: round_even_def Let_def)

lemma lo_t5:
  "round64 (0 + (897514516486647 / 18014398509481984)) =
     Fin (897514516486647 / 18014398509481984)"
  by (subst round64_binade [OF binade_eqI [of "- 5"]]) (simp_all add: round_even_def Let_def)

lemma lo_t6:
  "round64 ((897514516486647 / 18014398509481984) + (1 / 2)) =
     Fin (1238089221403455 / 2251799813685248)"
  by (subst round64_binade [OF binade_eqI [of "- 1"]]) (simp_all add: round_even_def Let_def)

lemma lo_q:
  "round64 ((1238089221403455 / 2251799813685248) / (5502835794693325 / 281474976710656)) =
     Fin (8106159608165843 / 288230376151711744)"
  by (subst round64_binade [OF binade_eqI [of "- 6"]]) (simp_all add: round_even_def Let_def)

lemma lo_rk:
  "round64 (1 + - (8106159608165843 / 288230376151711744)) =
     Fin (8753881766985809 / 9007199254740992)"
  by (subst round64_binade [OF binade_eqI [of "- 1"]]) (simp_all add: round_even_def Let_def)

lemma lo_pc:
  "round64 ((8753881766985809 / 9007199254740992) * 100) =
     Fin (6838970130457663 / 70368744177664)"
  by (subst round64_binade [OF binade_eqI [of 6]]) (simp_all add: round_even_def Let_def)

lemma hi_a6: "round64 (18014398509481988 / 2) = Fin 9007199254740994"
  by (subst round64_binade [OF binade_eqI [of 53]]) (simp_all add: round_even_def Let_def)

lemma hi_z6: "round64 (1 + 9007199254740994) = Fin 9007199254740996"
  by (subst round64_binade [OF binade_eqI [of 53]]) (simp_all add: round_even_def Let_def)

lemma hi_s6:
  "round64 (9007199254740994 / 9007199254740996) =
     Fin (4503599627370495 / 4503599627370496)"
  by (subst round64_binade [OF binade_eqI [of "- 1"]]) (simp_all add: round_even_def Let_def)

lemma hi_k6:
  "round64 (1 / 2 * (4503599627370495 / 4503599627370496)) =
     Fin (4503599627370495 / 9007199254740992)"
  by (subst round64_binade [OF binade_eqI [of "- 2"]]) (simp_all add: round_even_def Let_def)

lemma hi_t6:
  "round64 ((897514516486647 / 18014398509481984) + (4503599627370495 / 9007199254740992)) =
     Fin (2476178442806909 / 4503599627370496)"
  by (subst round64_binade [OF binade_eqI [of "- 1"]]) (simp_all add: round_even_def Let_def)

lemma hi_q:
  "round64 ((2476178442806909 / 4503599627370496) / (5502835794693325 / 281474976710656)) =
     Fin (506634975510365 / 18014398509481984)"
  by (subst round64_binade [OF binade_eqI [of "- 6"]]) (simp_all add: round_even_def Let_def)

lemma hi_rk:
  "round64 (1 + - (506634975510365 / 18014398509481984)) =
     Fin (4376940883492905 / 4503599627370496)"
  by (subst round64_binade [OF binade_eqI [of "- 1"]]) (simp_all add: round_even_def Let_def)

lemma hi_pc:
  "round64 ((4376940883492905 / 4503599627370496) * 100) =
     Fin (106858908288401 / 1099511627776)"
  by (subst round64_binade [OF binade_eqI [of 6]]) (simp_all add: round_even_def Let_def)

lemma exponential_cdf_f64_0: "exponential_cdf_f64 (Fin 0) = Fin 0"
  using round64_0 round64_1 by (simp add: exponential_cdf_f64_def f64_sub_def)

lemmas lo_facts = lo_a5 lo_z5 lo_s5 lo_k5 lo_a6 lo_z6 lo_s6 lo_k6 lo_t5 lo_t6 lo_q lo_rk lo_pc

lemmas hi_facts = lo_a5 lo_z5 lo_s5 lo_k5 hi_a6 hi_z6 hi_s6 hi_k6 lo_t5 hi_t6 hi_q hi_rk hi_pc

lemma followers_score_lo:
  "m_followers (scores (detailed (calculateRank_f64 followers_input_lo_f64))) = Fin 1"
  using round64_facts lo_facts
  by (simp add: calculateRank_f64_def followers_input_lo_f64_def Let_def log_normal_cdf_f64_def)

lemma followers_score_hi:
  "m_followers (scores (detailed (calculateRank_f64 followers_input_hi_f64))) =
     Fin (4503599627370495 / 4503599627370496)"
  using round64_facts hi_facts
  by (simp add: calculateRank_f64_def followers_input_hi_f64_def Let_def log_normal_cdf_f64_def)



subsection \<open>The all-zero input and the field repos, in binary64\<close>

text \<open>
  The thresholds are doubles or round to doubles; the all-zero input has percentile 100 and
  level \<^verbatim>\<open>C\<close> in binary64 too, and \<^verbatim>\<open>repos\<close> is not read.
\<close>

lemma round64_thresholds:
  "round64 5 = Fin 5" "round64 (25 / 2) = Fin (25 / 2)" "round64 25 = Fin 25"
  "round64 (75 / 2) = Fin (75 / 2)" "round64 50 = Fin 50" "round64 (125 / 2) = Fin (125 / 2)"
  "round64 75 = Fin 75" "round64 (175 / 2) = Fin (175 / 2)"
proof -
  show "round64 5 = Fin 5"
    by (subst round64_binade [OF binade_eqI [of 2]]) (simp_all add: round_even_def Let_def)
  show "round64 (25 / 2) = Fin (25 / 2)"
    by (subst round64_binade [OF binade_eqI [of 3]]) (simp_all add: round_even_def Let_def)
  show "round64 25 = Fin 25"
    by (subst round64_binade [OF binade_eqI [of 4]]) (simp_all add: round_even_def Let_def)
  show "round64 (75 / 2) = Fin (75 / 2)"
    by (subst round64_binade [OF binade_eqI [of 5]]) (simp_all add: round_even_def Let_def)
  show "round64 50 = Fin 50"
    by (subst round64_binade [OF binade_eqI [of 5]]) (simp_all add: round_even_def Let_def)
  show "round64 (125 / 2) = Fin (125 / 2)"
    by (subst round64_binade [OF binade_eqI [of 5]]) (simp_all add: round_even_def Let_def)
  show "round64 75 = Fin 75"
    by (subst round64_binade [OF binade_eqI [of 6]]) (simp_all add: round_even_def Let_def)
  show "round64 (175 / 2) = Fin (175 / 2)"
    by (subst round64_binade [OF binade_eqI [of 6]]) (simp_all add: round_even_def Let_def)
qed

lemma level_calculateRank_f64:
  "level (calculateRank_f64 p) =
     element_at LEVELS (findIndex (\<lambda>t. f64_le (percentile (calculateRank_f64 p)) t) THRESHOLDS_f64)"
  by (simp add: calculateRank_f64_def Let_def)

lemma level_for_100_f64:
  "element_at LEVELS (findIndex (\<lambda>t. f64_le (Fin 100) t) THRESHOLDS_f64) = Some ''C''"
  using round64_1 round64_half round64_tenth round64_100 round64_thresholds
  by (simp add: THRESHOLDS_f64_def THRESHOLDS_def LEVELS_def findIndex_def element_at_def)

lemma all_zero_input_f64:
  "percentile (calculateRank_f64 \<lparr>all_commits = b, commits = Fin 0, prs = Fin 0, issues = Fin 0,
      reviews = Fin 0, repos = r, stars = Fin 0, followers = Fin 0\<rparr>) = Fin 100 \<and>
   level (calculateRank_f64 \<lparr>all_commits = b, commits = Fin 0, prs = Fin 0, issues = Fin 0,
      reviews = Fin 0, repos = r, stars = Fin 0, followers = Fin 0\<rparr>) = Some ''C''"
proof -
  let ?p = "\<lparr>all_commits = b, commits = Fin 0, prs = Fin 0, issues = Fin 0,
      reviews = Fin 0, repos = r, stars = Fin 0, followers = Fin 0\<rparr>"
  have pct: "percentile (calculateRank_f64 ?p) = Fin 100"
    using round64_facts
    by (simp add: calculateRank_f64_def Let_def f64_sub_def exponential_cdf_f64_0
        log_normal_cdf_f64_def)
  then have "level (calculateRank_f64 ?p) = Some ''C''"
    unfolding level_calculateRank_f64 [of ?p] by (simp only: level_for_100_f64)
  with pct show ?thesis
    by (rule conjI)
qed

lemma repos_unused_f64: "calculateRank_f64 (p\<lparr>repos := r\<rparr>) = calculateRank_f64 p"
proof -
  have "all_commits (p\<lparr>repos := r\<rparr>) = all_commits p" "commits (p\<lparr>repos := r\<rparr>) = commits p"
    "prs (p\<lparr>repos := r\<rparr>) = prs p" "issues (p\<lparr>repos := r\<rparr>) = issues p"
    "reviews (p\<lparr>repos := r\<rparr>) = reviews p" "stars (p\<lparr>repos := r\<rparr>) = stars p"
    "followers (p\<lparr>repos := r\<rparr>) = followers p"
    by simp_all
  then show ?thesis
    unfolding calculateRank_f64_def by (simp only:)
qed

subsection \<open>The error of one rounding\<close>

text \<open>
  A non-negative number below \<open>2 powi k\<close> is rounded with an error of at most
  \<open>2 powi (k - 54)\<close>. The weighted sum is below 32 and is the result of five additions, the
  percentile is the result of three more operations; their distance to the exact values is
  bounded accordingly.
\<close>

lemma round_even_error: "\<bar>real_of_int (round_even t) - t\<bar> \<le> 1 / 2"
  using round_even_cases [of t] by (auto simp: abs_le_iff)

lemma nearest_error: "\<bar>nearest x - x\<bar> \<le> quantum x / 2"
proof -
  let ?u = "quantum x"
  have u: "0 < ?u" by (rule quantum_pos)
  have "nearest x - x = (real_of_int (round_even (x / ?u)) - x / ?u) * ?u"
    using u by (simp add: nearest_def field_simps)
  then have "\<bar>nearest x - x\<bar> = \<bar>real_of_int (round_even (x / ?u)) - x / ?u\<bar> * ?u"
    using u by (simp add: abs_mult)
  also have "\<dots> \<le> 1 / 2 * ?u"
    using round_even_error [of "x / ?u"] u by (intro mult_right_mono) simp_all
  finally show ?thesis by simp
qed

lemma round64_error:
  assumes "0 \<le> x" and "x < 2 powi k" and "- 1021 \<le> k" and "k \<le> 1023"
  shows "\<exists>a. round64 x = Fin a \<and> \<bar>a - x\<bar> \<le> 2 powi (k - 54)"
proof -
  have b: "binade x \<le> k - 1"
  proof (cases "\<bar>x\<bar> < 2 powi (- 1022)")
    case True
    then show ?thesis using assms(3) by (simp add: binade_small)
  next
    case False
    then have "2 powi binade x \<le> \<bar>x\<bar>"
      using binade_bounds [of x] by simp
    then have "(2::real) powi binade x < 2 powi (k - 1 + 1)"
      using assms(1,2) by simp
    then show ?thesis
      by (rule powi_less_imp_le)
  qed
  then have "quantum x \<le> 2 powi (k - 53)"
    unfolding quantum_def by (intro power_int_increasing) simp_all
  moreover have "(2::real) powi (k - 53) = 2 * 2 powi (k - 54)"
    using power_int_add [of "2::real" 1 "k - 54"] by simp
  ultimately have e: "\<bar>nearest x - x\<bar> \<le> 2 powi (k - 54)"
    using nearest_error [of x] by linarith
  have "nearest x \<le> 2 powi (binade x + 1)"
    using assms(1) by (rule nearest_upper)
  also have "(2::real) powi (binade x + 1) \<le> 2 powi 1023"
    using b assms(4) by (intro power_int_increasing) simp_all
  finally have "nearest x \<le> 2 ^ 1023"
    by simp
  moreover have "0 \<le> nearest x"
    using assms(1) by (rule nearest_nonneg)
  ultimately have "\<bar>nearest x\<bar> < 2 ^ 1024"
    by simp
  then have "round64 x = Fin (nearest x)"
    by (rule round64_FinI)
  with e show ?thesis by simp
qed

lemma round64_near:
  assumes "0 \<le> x" and "x < 2 powi k" and "- 1021 \<le> k" and "k \<le> 1023"
  shows "\<exists>a. round64 x = Fin a \<and> 0 \<le> a \<and> \<bar>a - x\<bar> \<le> 2 powi (k - 54)"
proof -
  from round64_error [OF assms] obtain a where a: "round64 x = Fin a" "\<bar>a - x\<bar> \<le> 2 powi (k - 54)"
    by blast
  from round64_mono [OF assms(1) _ a(1)] have "0 \<le> a"
    using a(1) by auto
  with a show ?thesis by blast
qed

lemma abs_diff_leD: "\<bar>a - b\<bar> \<le> e \<Longrightarrow> a \<le> b + e \<and> b - e \<le> (a::real)"
  by linarith

lemma f64_add_near:
  assumes "0 \<le> a" and "0 \<le> b" and "a + b < 32"
  shows "\<exists>t. f64_add (Fin a) (Fin b) = Fin t \<and> 0 \<le> t \<and> \<bar>t - (a + b)\<bar> \<le> 2 powi (- 49)"
  using round64_near [of "a + b" 5] assms by simp

lemma weighted_sum_f64_near:
  assumes "0 \<le> k1" "k1 \<le> 15 / 2" "0 \<le> k2" "k2 \<le> 3" "0 \<le> k3" "k3 \<le> 1 / 2"
    "0 \<le> k4" "k4 \<le> 1 / 2" "0 \<le> k5" "k5 \<le> 1 / 16" "0 \<le> k6" "k6 \<le> 1 / 2"
  shows "\<exists>t. f64_add (f64_add (f64_add (f64_add (f64_add (Fin k1) (Fin k2)) (Fin k3)) (Fin k4))
      (Fin k5)) (Fin k6) = Fin t \<and> 0 \<le> t \<and> t \<le> 13 \<and>
      \<bar>t - (k1 + k2 + k3 + k4 + k5 + k6)\<bar> \<le> 5 * 2 powi (- 49)"
proof -
  define e :: real where "e = 2 powi (- 49)"
  have e: "0 \<le> e" "e \<le> 1 / 1000"
    by (simp_all add: e_def)
  have "k1 + k2 < 32"
    using assms by linarith
  then obtain t2 where t2: "f64_add (Fin k1) (Fin k2) = Fin t2" "0 \<le> t2"
    "\<bar>t2 - (k1 + k2)\<bar> \<le> e"
    using f64_add_near [of k1 k2] assms unfolding e_def by blast
  note b2 = abs_diff_leD [OF t2(3)]
  have "t2 + k3 < 32"
    using b2 assms e by linarith
  then obtain t3 where t3: "f64_add (Fin t2) (Fin k3) = Fin t3" "0 \<le> t3"
    "\<bar>t3 - (t2 + k3)\<bar> \<le> e"
    using f64_add_near [of t2 k3] assms t2(2) unfolding e_def by blast
  note b3 = abs_diff_leD [OF t3(3)]
  have "t3 + k4 < 32"
    using b2 b3 assms e by linarith
  then obtain t4 where t4: "f64_add (Fin t3) (Fin k4) = Fin t4" "0 \<le> t4"
    "\<bar>t4 - (t3 + k4)\<bar> \<le> e"
    using f64_add_near [of t3 k4] assms t3(2) unfolding e_def by blast
  note b4 = abs_diff_leD [OF t4(3)]
  have "t4 + k5 < 32"
    using b2 b3 b4 assms e by linarith
  then obtain t5 where t5: "f64_add (Fin t4) (Fin k5) = Fin t5" "0 \<le> t5"
    "\<bar>t5 - (t4 + k5)\<bar> \<le> e"
    using f64_add_near [of t4 k5] assms t4(2) unfolding e_def by blast
  note b5 = abs_diff_leD [OF t5(3)]
  have "t5 + k6 < 32"
    using b2 b3 b4 b5 assms e by linarith
  then obtain t6 where t6: "f64_add (Fin t5) (Fin k6) = Fin t6" "0 \<le> t6"
    "\<bar>t6 - (t5 + k6)\<bar> \<le> e"
    using f64_add_near [of t5 k6] assms t5(2) unfolding e_def by blast
  note b6 = abs_diff_leD [OF t6(3)]
  have d: "\<bar>t6 - (k1 + k2 + k3 + k4 + k5 + k6)\<bar> \<le> 5 * e"
    using b2 b3 b4 b5 b6 by linarith
  have "t6 \<le> 13"
    using b2 b3 b4 b5 b6 assms e by linarith
  with d t6(2) show ?thesis
    unfolding t2(1) t3(1) t4(1) t5(1) t6(1) e_def by blast
qed

lemma percentile_f64_near:
  assumes "0 \<le> t" and "t \<le> 13"
  shows "\<exists>pc. f64_mul (f64_sub (Fin 1)
        (f64_div (Fin t) (Fin (5502835794693325 / 281474976710656)))) (Fin 100) = Fin pc \<and>
      \<bar>pc - (1 - t / (5502835794693325 / 281474976710656)) * 100\<bar> \<le> 2 powi (- 44)"
proof -
  let ?TW = "5502835794693325 / 281474976710656 :: real"
  define x where "x = t / ?TW"
  define e :: real where "e = 2 powi (- 53)"
  define e' :: real where "e' = 2 powi (- 47)"
  have e: "0 \<le> e" "e \<le> 1 / 1000" "e' + 200 * e \<le> 2 powi (- 44)"
    by (simp_all add: e_def e'_def)
  have x: "0 \<le> x" "x \<le> 7 / 10"
    using assms by (simp_all add: x_def)
  then have "x < 2 powi 1"
    by simp
  then obtain q where q: "round64 x = Fin q" "0 \<le> q" "\<bar>q - x\<bar> \<le> e"
    using round64_near [of x 1] x(1) unfolding e_def by auto
  note bq = abs_diff_leD [OF q(3)]
  have "0 \<le> 1 - q" "1 - q < 2 powi 1"
    using bq q(2) x e by simp_all
  then obtain rk where rk: "round64 (1 - q) = Fin rk" "0 \<le> rk" "\<bar>rk - (1 - q)\<bar> \<le> e"
    using round64_near [of "1 - q" 1] unfolding e_def by auto
  note br = abs_diff_leD [OF rk(3)]
  have "0 \<le> rk * 100" "rk * 100 < 2 powi 7"
    using br rk(2) q(2) e by simp_all
  then obtain pc where pc: "round64 (rk * 100) = Fin pc" "\<bar>pc - rk * 100\<bar> \<le> e'"
    using round64_near [of "rk * 100" 7] unfolding e'_def by auto
  note bp = abs_diff_leD [OF pc(2)]
  have "f64_mul (f64_sub (Fin 1) (f64_div (Fin t) (Fin ?TW))) (Fin 100) = Fin pc"
    using q(1) rk(1) pc(1) by (simp add: f64_sub_def x_def)
  moreover have "\<bar>pc - (1 - x) * 100\<bar> \<le> e' + 200 * e"
  proof -
    have "pc \<le> (1 - x) * 100 + (e' + 200 * e)" "(1 - x) * 100 - (e' + 200 * e) \<le> pc"
      using bp br bq by (simp_all add: algebra_simps)
    then show ?thesis
      by (simp add: abs_le_iff)
  qed
  ultimately show ?thesis
    using e(3) unfolding x_def by (intro exI [of _ pc]) linarith
qed

subsection \<open>The commit median in binary64\<close>

text \<open>
  At \<^verbatim>\<open>commits = 80\<close> the contribution of commits is \<open>15 / 2\<close> for the median 80 and at
  most \<open>15 / 4\<close> for the median 400. The other five contributions do not depend on
  \<^verbatim>\<open>all_commits\<close>, so the two weighted sums differ by more than 3, far above the rounding
  errors, and the percentile with \<^verbatim>\<open>all_commits = true\<close> is strictly higher.
\<close>

lemma three_quarters_le: "(3 / 4 :: real) \<le> 2 powr (- (1 / 4))"
proof -
  have "(3 / 4 :: real) = ((3 / 4) ^ 4) powr (1 / 4)"
    by (simp add: power_divide powr_divide)
  also have "((3 / 4 :: real) ^ 4) powr (1 / 4) \<le> (1 / 2) powr (1 / 4)"
    by (rule powr_mono2) (simp_all add: power_divide)
  also have "(1 / 2 :: real) powr (1 / 4) = 2 powr (- (1 / 4))"
    by (simp add: powr_divide powr_minus_divide)
  finally show ?thesis .
qed

lemma round64_small_values:
  "round64 (1 / 4) = Fin (1 / 4)" "round64 (3 / 4) = Fin (3 / 4)"
  "round64 (15 / 4) = Fin (15 / 4)" "round64 (15 / 2) = Fin (15 / 2)"
  "round64 (1 / 5) = Fin (3602879701896397 / 18014398509481984)"
proof -
  show "round64 (1 / 4) = Fin (1 / 4)"
    by (subst round64_binade [OF binade_eqI [of "- 2"]]) (simp_all add: round_even_def Let_def)
  show "round64 (3 / 4) = Fin (3 / 4)"
    by (subst round64_binade [OF binade_eqI [of "- 1"]]) (simp_all add: round_even_def Let_def)
  show "round64 (15 / 4) = Fin (15 / 4)"
    by (subst round64_binade [OF binade_eqI [of 1]]) (simp_all add: round_even_def Let_def)
  show "round64 (15 / 2) = Fin (15 / 2)"
    by (subst round64_binade [OF binade_eqI [of 2]]) (simp_all add: round_even_def Let_def)
  show "round64 (1 / 5) = Fin (3602879701896397 / 18014398509481984)"
    by (subst round64_binade [OF binade_eqI [of "- 3"]]) (simp_all add: round_even_def Let_def)
qed

text \<open>The contribution of commits at \<open>commits = 80\<close>, for the two medians.\<close>

lemma commits_contribution_80:
  "f64_mul (Fin 15) (exponential_cdf_f64 (f64_div (Fin 80) (Fin 80))) = Fin (15 / 2)"
  using round64_1 round64_half round64_small_values(4)
  by (simp add: exponential_cdf_f64_def f64_sub_def powr_minus_divide)

lemma commits_contribution_400:
  "\<exists>k. f64_mul (Fin 15) (exponential_cdf_f64 (f64_div (Fin 80) (Fin 400))) = Fin k \<and>
     0 \<le> k \<and> k \<le> 15 / 4"
proof -
  let ?a = "3602879701896397 / 18014398509481984 :: real"
  have a: "f64_div (Fin 80) (Fin 400) = Fin ?a"
    using round64_small_values(5) by simp
  have "2 powr (- (1 / 4)) \<le> 2 powr (- ?a)"
    by (rule powr_mono) simp_all
  then have "3 / 4 \<le> 2 powr (- ?a)"
    using three_quarters_le by linarith
  moreover have "2 powr (- ?a) \<le> 1"
    using powr_mono [of "- ?a" 0 2] by simp
  ultimately obtain q where q: "round64 (2 powr (- ?a)) = Fin q" "3 / 4 \<le> q" "q \<le> 1"
    using round64_between [OF _ round64_small_values(2) round64_1, of "2 powr (- ?a)"] by auto
  then have "0 \<le> 1 - q" "1 - q \<le> 1 / 4"
    by simp_all
  then obtain s where s: "round64 (1 - q) = Fin s" "0 \<le> s" "s \<le> 1 / 4"
    using round64_between [OF _ round64_0 round64_small_values(1), of "1 - q"] by auto
  then have "0 \<le> 15 * s" "15 * s \<le> 15 / 4"
    by simp_all
  then obtain k where k: "round64 (15 * s) = Fin k" "0 \<le> k" "k \<le> 15 / 4"
    using round64_between [OF _ round64_0 round64_small_values(3), of "15 * s"] by auto
  have "exponential_cdf_f64 (Fin ?a) = Fin s"
    using q(1) s(1) round64_1 by (simp add: exponential_cdf_f64_def f64_sub_def)
  then have "f64_mul (Fin 15) (exponential_cdf_f64 (f64_div (Fin 80) (Fin 400))) = Fin k"
    unfolding a using k(1) by simp
  with k(2,3) show ?thesis
    by blast
qed

lemma exponential_contribution_f64:
  assumes "moderate v" and "1 / 16 \<le> m" and "0 \<le> w" and "round64 w = Fin w"
  shows "\<exists>k. f64_mul (Fin w) (exponential_cdf_f64 (f64_div v (Fin m))) = Fin k \<and>
      0 \<le> k \<and> k \<le> w"
proof -
  from assms(1) obtain c where c: "v = Fin c" "0 \<le> c" "c \<le> 10 ^ 300"
    by (rule moderateE)
  obtain a where a: "f64_div (Fin c) (Fin m) = Fin a" "0 \<le> a"
    using quotient_f64 [OF c(2,3) assms(2)] by blast
  obtain s where s: "exponential_cdf_f64 (Fin a) = Fin s" "0 \<le> s" "s \<le> 1"
    using exponential_cdf_f64_range [OF a(2)] by blast
  show ?thesis
    unfolding c(1) a(1) s(1) using f64_mul_weight [OF assms(3,4) s(2,3)] .
qed

lemma log_normal_contribution_f64:
  assumes "moderate v" and "1 / 16 \<le> m" and "0 \<le> w" and "round64 w = Fin w"
  shows "\<exists>k. f64_mul (Fin w) (log_normal_cdf_f64 (f64_div v (Fin m))) = Fin k \<and>
      0 \<le> k \<and> k \<le> w"
proof -
  from assms(1) obtain c where c: "v = Fin c" "0 \<le> c" "c \<le> 10 ^ 300"
    by (rule moderateE)
  obtain a where a: "f64_div (Fin c) (Fin m) = Fin a" "0 \<le> a" "a \<le> 2 ^ 1004"
    "round64 a = Fin a"
    using quotient_f64 [OF c(2,3) assms(2)] by blast
  obtain s where s: "log_normal_cdf_f64 (Fin a) = Fin s" "0 \<le> s" "s \<le> 1"
    using log_normal_cdf_f64_range [OF a(2,3,4)] by blast
  show ?thesis
    unfolding c(1) a(1) s(1) using f64_mul_weight [OF assms(3,4) s(2,3)] .
qed

lemma percentile_calculateRank_f64:
  "percentile (calculateRank_f64 p) =
     f64_mul (f64_sub (Fin 1) (f64_div
       (weighted_sum_f64 (f64_mul (Fin 15) (exponential_cdf_f64
          (f64_div (commits p) (Fin (if all_commits p then 400 else 80))))) p)
       (Fin (5502835794693325 / 281474976710656)))) (Fin 100)"
proof -
  have M: "(if all_commits p then round64 400 else round64 80) =
      Fin (if all_commits p then 400 else 80)"
    by (simp add: round64_400 round64_80)
  show ?thesis
    by (simp only: calculateRank_f64_def Let_def rank_result.select_convs weighted_sum_f64_def
        M round64_1 round64_2 round64_3 round64_15 round64_100 round64_half round64_twentieth
        round64_tenth total_weight_f64)
qed

lemma weighted_sum_f64_near_exact:
  assumes "moderate (prs p)" "moderate (issues p)" "moderate (reviews p)" "moderate (stars p)"
    "moderate (followers p)"
  shows "\<exists>s. \<forall>k. 0 \<le> k \<longrightarrow> k \<le> 15 / 2 \<longrightarrow>
     (\<exists>t. weighted_sum_f64 (Fin k) p = Fin t \<and> 0 \<le> t \<and> t \<le> 13 \<and>
        \<bar>t - (k + s)\<bar> \<le> 5 * 2 powi (- 49))"
proof -
  let ?w5 = "3602879701896397 / 72057594037927936 :: real"
  obtain k2 where k2: "f64_mul (Fin 3) (exponential_cdf_f64 (f64_div (prs p) (Fin 15))) = Fin k2"
    "0 \<le> k2" "k2 \<le> 3"
    using exponential_contribution_f64 [OF assms(1) _ _ round64_3, of 15] by auto
  obtain k3 where k3: "f64_mul (Fin (1 / 2)) (exponential_cdf_f64 (f64_div (issues p) (Fin 2))) =
    Fin k3" "0 \<le> k3" "k3 \<le> 1 / 2"
    using exponential_contribution_f64 [OF assms(2) _ _ round64_half, of 2] by auto
  obtain k4 where k4: "f64_mul (Fin (1 / 2)) (exponential_cdf_f64 (f64_div (reviews p) (Fin 2))) =
    Fin k4" "0 \<le> k4" "k4 \<le> 1 / 2"
    using exponential_contribution_f64 [OF assms(3) _ _ round64_half, of 2] by auto
  obtain k5 where k5: "f64_mul (Fin ?w5) (log_normal_cdf_f64 (f64_div (stars p)
      (Fin (3602879701896397 / 36028797018963968)))) = Fin k5" "0 \<le> k5" "k5 \<le> ?w5"
    using log_normal_contribution_f64 [OF assms(4) _ _ round64_twentieth_again,
        of "3602879701896397 / 36028797018963968"] by auto
  obtain k6 where k6: "f64_mul (Fin (1 / 2)) (log_normal_cdf_f64 (f64_div (followers p) (Fin 2))) =
    Fin k6" "0 \<le> k6" "k6 \<le> 1 / 2"
    using log_normal_contribution_f64 [OF assms(5) _ _ round64_half, of 2] by auto
  have k5': "k5 \<le> 1 / 16"
    using k5(3) by simp
  have "\<exists>t. weighted_sum_f64 (Fin k) p = Fin t \<and> 0 \<le> t \<and> t \<le> 13 \<and>
        \<bar>t - (k + (k2 + k3 + k4 + k5 + k6))\<bar> \<le> 5 * 2 powi (- 49)"
    if "0 \<le> k" "k \<le> 15 / 2" for k
    using weighted_sum_f64_near [OF that k2(2,3) k3(2,3) k4(2,3) k5(2) k5' k6(2,3)]
    unfolding weighted_sum_f64_def k2(1) k3(1) k4(1) k5(1) k6(1)
    by (simp only: add.assoc)
  then show ?thesis
    by blast
qed

lemma all_commits_raises_percentile_f64:
  assumes "moderate (prs p)" "moderate (issues p)" "moderate (reviews p)" "moderate (stars p)"
    "moderate (followers p)" and "commits p = Fin 80"
  shows "\<exists>a b. percentile (calculateRank_f64 (p\<lparr>all_commits := True\<rparr>)) = Fin a \<and>
     percentile (calculateRank_f64 (p\<lparr>all_commits := False\<rparr>)) = Fin b \<and> b < a"
proof -
  let ?TW = "5502835794693325 / 281474976710656 :: real"
  define e :: real where "e = 2 powi (- 49)"
  define e' :: real where "e' = 2 powi (- 44)"
  have e: "0 \<le> e" "e \<le> 1 / 1000" "0 \<le> e'" "e' \<le> 1 / 1000"
    by (simp_all add: e_def e'_def)
  obtain s where s: "\<And>k. 0 \<le> k \<Longrightarrow> k \<le> 15 / 2 \<Longrightarrow>
     \<exists>t. weighted_sum_f64 (Fin k) p = Fin t \<and> 0 \<le> t \<and> t \<le> 13 \<and> \<bar>t - (k + s)\<bar> \<le> 5 * e"
    using weighted_sum_f64_near_exact [OF assms(1-5)] unfolding e_def by blast
  obtain k where k: "f64_mul (Fin 15) (exponential_cdf_f64 (f64_div (Fin 80) (Fin 400))) = Fin k"
    "0 \<le> k" "k \<le> 15 / 4"
    using commits_contribution_400 by blast
  obtain tT where tT: "weighted_sum_f64 (Fin k) p = Fin tT" "0 \<le> tT" "tT \<le> 13"
    "\<bar>tT - (k + s)\<bar> \<le> 5 * e"
    using s [of k] k(2,3) by auto
  obtain tF where tF: "weighted_sum_f64 (Fin (15 / 2)) p = Fin tF" "0 \<le> tF" "tF \<le> 13"
    "\<bar>tF - (15 / 2 + s)\<bar> \<le> 5 * e"
    using s [of "15 / 2"] by auto
  obtain a where a: "f64_mul (f64_sub (Fin 1) (f64_div (Fin tT) (Fin ?TW))) (Fin 100) = Fin a"
    "\<bar>a - (1 - tT / ?TW) * 100\<bar> \<le> e'"
    using percentile_f64_near [OF tT(2,3)] unfolding e'_def by blast
  obtain b where b: "f64_mul (f64_sub (Fin 1) (f64_div (Fin tF) (Fin ?TW))) (Fin 100) = Fin b"
    "\<bar>b - (1 - tF / ?TW) * 100\<bar> \<le> e'"
    using percentile_f64_near [OF tF(2,3)] unfolding e'_def by blast
  have pa: "percentile (calculateRank_f64 (p\<lparr>all_commits := True\<rparr>)) = Fin a"
    unfolding percentile_calculateRank_f64 using assms(6) k(1) tT(1) a(1)
    by (simp add: weighted_sum_f64_def)
  have pb: "percentile (calculateRank_f64 (p\<lparr>all_commits := False\<rparr>)) = Fin b"
    unfolding percentile_calculateRank_f64 using assms(6) commits_contribution_80 tF(1) b(1)
    by (simp add: weighted_sum_f64_def)
  note bT = abs_diff_leD [OF tT(4)] and bF = abs_diff_leD [OF tF(4)]
  have "3 \<le> tF - tT"
    using bT bF k(3) e by linarith
  then have "3 / ?TW \<le> (tF - tT) / ?TW"
    by (intro divide_right_mono) simp_all
  then have d: "3 / 20 \<le> tF / ?TW - tT / ?TW"
    unfolding diff_divide_distrib [symmetric] by simp
  define x where "x = tT / ?TW"
  define y where "y = tF / ?TW"
  have "b \<le> (1 - y) * 100 + e'" "(1 - x) * 100 - e' \<le> a"
    using abs_diff_leD [OF a(2)] abs_diff_leD [OF b(2)] unfolding x_def y_def by simp_all
  moreover have "3 / 20 \<le> y - x"
    using d unfolding x_def y_def .
  ultimately have "b < a"
    using e by (simp add: algebra_simps)
  with pa pb show ?thesis
    by blast
qed

subsection \<open>Overflow of the stars ratio\<close>

text \<open>
  A number of \<open>2 ^ 1024\<close> or more rounds to \<^verbatim>\<open>Infinity\<close>. With \<^verbatim>\<open>stars\<close> of
  \<open>2 ^ 1023\<close> or more the ratio to the median is \<^verbatim>\<open>Infinity\<close>, the score is \<^verbatim>\<open>NaN\<close>, and
  \<^verbatim>\<open>NaN\<close> goes through the weighted sum to the percentile; \<^verbatim>\<open>findIndex\<close> then finds no
  threshold.
\<close>

lemma round64_overflow:
  assumes "2 ^ 1024 \<le> x"
  shows "round64 x = PosInf"
proof -
  have "nearest (2 powi 1024) = 2 powi 1024"
    by (rule nearest_power_of_2) simp
  then have "nearest (2 ^ 1024) = 2 ^ 1024"
    by simp
  moreover have "nearest (2 ^ 1024) \<le> nearest x"
    using assms by (intro nearest_mono) simp_all
  ultimately have "2 ^ 1024 \<le> \<bar>nearest x\<bar>"
    by linarith
  moreover have "0 < x"
    using assms by (rule less_le_trans [rotated]) simp
  ultimately show ?thesis
    by (simp add: round64_def)
qed

lemma round64_2_1023: "round64 (2 ^ 1023) = Fin (2 ^ 1023)"
proof -
  have "nearest (2 powi 1023) = 2 powi 1023"
    by (rule nearest_power_of_2) simp
  then have "nearest (2 ^ 1023) = 2 ^ 1023"
    by simp
  then show ?thesis
    by (simp add: round64_def)
qed

lemma stars_ratio_overflow:
  assumes "2 ^ 1023 \<le> s"
  shows "f64_div (Fin s) (Fin (3602879701896397 / 36028797018963968)) = PosInf"
proof -
  have "0 < s"
    using assms by (rule less_le_trans [rotated]) simp
  then have "s * 2 \<le> s / (3602879701896397 / 36028797018963968)"
    by simp
  moreover have "(2::real) ^ 1024 = 2 ^ 1023 * 2"
    by simp
  ultimately have "2 ^ 1024 \<le> s / (3602879701896397 / 36028797018963968)"
    using assms by linarith
  then show ?thesis
    by (simp add: round64_overflow)
qed

lemma f64_add_NaN [simp]: "f64_add x NaN = NaN"
  by (cases x) simp_all

lemma log_normal_cdf_f64_PosInf: "log_normal_cdf_f64 PosInf = NaN"
  by (simp add: log_normal_cdf_f64_def round64_1)

lemma weighted_sum_f64_overflow:
  assumes "stars p = Fin s" and "2 ^ 1023 \<le> s"
  shows "weighted_sum_f64 k p = NaN"
  unfolding weighted_sum_f64_def assms(1) stars_ratio_overflow [OF assms(2)]
    log_normal_cdf_f64_PosInf
  by simp

lemma findIndex_NaN: "findIndex (\<lambda>t. f64_le NaN t) ts = - 1"
proof -
  have "findIndex_from (\<lambda>t. f64_le NaN t) ts k = - 1" for k
    by (induction ts arbitrary: k) simp_all
  then show ?thesis
    by (simp add: findIndex_def)
qed

lemma calculateRank_f64_overflow:
  assumes "stars p = Fin s" and "2 ^ 1023 \<le> s"
  shows "percentile (calculateRank_f64 p) = NaN" and "level (calculateRank_f64 p) = None"
proof -
  show pct: "percentile (calculateRank_f64 p) = NaN"
    unfolding percentile_calculateRank_f64 weighted_sum_f64_overflow [OF assms]
    by (simp add: f64_sub_def)
  show "level (calculateRank_f64 p) = None"
    unfolding level_calculateRank_f64 pct findIndex_NaN by (simp add: element_at_def)
qed

subsection \<open>The order of the percentiles in binary64\<close>










subsection \<open>Two inputs that differ in stars, in binary64\<close>

text \<open>
  With \<^verbatim>\<open>stars = 900719925474100\<close> the ratio is \<open>2 ^ 53 + 8\<close>, the sum with 1 rounds back
  to it and the score is 1. With \<^verbatim>\<open>stars = 900719925474101\<close> the ratio is \<open>2 ^ 53 + 18\<close>,
  the sum rounds up to \<open>2 ^ 53 + 20\<close> and the score is below 1. The lemmas \<open>slo_\<close> and
  \<open>shi_\<close> are the roundings of the two computations, one operation each.
\<close>

lemma slo_a5:
  "round64 (900719925474100 / (3602879701896397 / 36028797018963968)) =
     Fin 9007199254741000"
  by (subst round64_binade [OF binade_eqI [of 53]]) (simp_all add: round_even_def Let_def)

lemma slo_z5: "round64 (1 + 9007199254741000) = Fin 9007199254741000"
  by (subst round64_binade [OF binade_eqI [of 53]]) (simp_all add: round_even_def Let_def)

lemma slo_s5: "round64 (9007199254741000 / 9007199254741000) = Fin 1"
  by (subst round64_binade [OF binade_eqI [of 0]]) (simp_all add: round_even_def Let_def)

lemma slo_k5:
  "round64 ((3602879701896397 / 72057594037927936) * 1) =
     Fin (3602879701896397 / 72057594037927936)"
  by (subst round64_binade [OF binade_eqI [of "- 5"]]) (simp_all add: round_even_def Let_def)

lemma slo_a6: "round64 (75 / 2) = Fin (75 / 2)"
  by (subst round64_binade [OF binade_eqI [of 5]]) (simp_all add: round_even_def Let_def)

lemma slo_z6: "round64 (1 + (75 / 2)) = Fin (77 / 2)"
  by (subst round64_binade [OF binade_eqI [of 5]]) (simp_all add: round_even_def Let_def)

lemma slo_s6: "round64 ((75 / 2) / (77 / 2)) = Fin (4386623013672561 / 4503599627370496)"
  by (subst round64_binade [OF binade_eqI [of "- 1"]]) (simp_all add: round_even_def Let_def)

lemma slo_k6:
  "round64 (1 / 2 * (4386623013672561 / 4503599627370496)) =
     Fin (4386623013672561 / 9007199254740992)"
  by (subst round64_binade [OF binade_eqI [of "- 2"]]) (simp_all add: round_even_def Let_def)

lemma slo_t5:
  "round64 (0 + (3602879701896397 / 72057594037927936)) =
     Fin (3602879701896397 / 72057594037927936)"
  by (subst round64_binade [OF binade_eqI [of "- 5"]]) (simp_all add: round_even_def Let_def)

lemma slo_t6:
  "round64 ((3602879701896397 / 72057594037927936) + (4386623013672561 / 9007199254740992)) =
     Fin (4836982976409611 / 9007199254740992)"
  by (subst round64_binade [OF binade_eqI [of "- 1"]]) (simp_all add: round_even_def Let_def)

lemma slo_q:
  "round64 ((4836982976409611 / 9007199254740992) / (5502835794693325 / 281474976710656)) =
     Fin (494832018047019 / 18014398509481984)"
  by (subst round64_binade [OF binade_eqI [of "- 6"]]) (simp_all add: round_even_def Let_def)

lemma slo_rk:
  "round64 (1 + - (494832018047019 / 18014398509481984)) =
     Fin (4379891622858741 / 4503599627370496)"
  by (subst round64_binade [OF binade_eqI [of "- 1"]]) (simp_all add: round_even_def Let_def)

lemma slo_pc:
  "round64 ((4379891622858741 / 4503599627370496) * 100) =
     Fin (6843580660716783 / 70368744177664)"
  by (subst round64_binade [OF binade_eqI [of 6]]) (simp_all add: round_even_def Let_def)

lemma shi_a5:
  "round64 (900719925474101 / (3602879701896397 / 36028797018963968)) =
     Fin 9007199254741010"
  by (subst round64_binade [OF binade_eqI [of 53]]) (simp_all add: round_even_def Let_def)

lemma shi_z5: "round64 (1 + 9007199254741010) = Fin 9007199254741012"
  by (subst round64_binade [OF binade_eqI [of 53]]) (simp_all add: round_even_def Let_def)

lemma shi_s5:
  "round64 (9007199254741010 / 9007199254741012) =
     Fin (4503599627370495 / 4503599627370496)"
  by (subst round64_binade [OF binade_eqI [of "- 1"]]) (simp_all add: round_even_def Let_def)

lemma shi_k5:
  "round64 ((3602879701896397 / 72057594037927936) * (4503599627370495 / 4503599627370496)) =
     Fin (900719925474099 / 18014398509481984)"
  by (subst round64_binade [OF binade_eqI [of "- 5"]]) (simp_all add: round_even_def Let_def)

lemma shi_t5:
  "round64 (0 + (900719925474099 / 18014398509481984)) =
     Fin (900719925474099 / 18014398509481984)"
  by (subst round64_binade [OF binade_eqI [of "- 5"]]) (simp_all add: round_even_def Let_def)

lemma shi_t6:
  "round64 ((900719925474099 / 18014398509481984) + (4386623013672561 / 9007199254740992)) =
     Fin (2418491488204805 / 4503599627370496)"
  by (subst round64_binade [OF binade_eqI [of "- 1"]]) (simp_all add: round_even_def Let_def)

lemma shi_q:
  "round64 ((2418491488204805 / 4503599627370496) / (5502835794693325 / 281474976710656)) =
     Fin (7917312288752303 / 288230376151711744)"
  by (subst round64_binade [OF binade_eqI [of "- 6"]]) (simp_all add: round_even_def Let_def)

lemma shi_rk:
  "round64 (1 + - (7917312288752303 / 288230376151711744)) =
     Fin (8759783245717483 / 9007199254740992)"
  by (subst round64_binade [OF binade_eqI [of "- 1"]]) (simp_all add: round_even_def Let_def)

lemma shi_pc:
  "round64 ((8759783245717483 / 9007199254740992) * 100) =
     Fin (427723791294799 / 4398046511104)"
  by (subst round64_binade [OF binade_eqI [of 6]]) (simp_all add: round_even_def Let_def)

lemmas slo_facts = slo_a5 slo_z5 slo_s5 slo_k5 slo_a6 slo_z6 slo_s6 slo_k6 slo_t5 slo_t6 slo_q
  slo_rk slo_pc

lemmas shi_facts = shi_a5 shi_z5 shi_s5 shi_k5 slo_a6 slo_z6 slo_s6 slo_k6 shi_t5 shi_t6 shi_q
  shi_rk shi_pc

lemma stars_inputs_are_doubles:
  "round64 900719925474100 = Fin 900719925474100"
  "round64 900719925474101 = Fin 900719925474101" "round64 75 = Fin 75"
proof -
  show "round64 900719925474100 = Fin 900719925474100"
    by (subst round64_binade [OF binade_eqI [of 49]]) (simp_all add: round_even_def Let_def)
  show "round64 900719925474101 = Fin 900719925474101"
    by (subst round64_binade [OF binade_eqI [of 49]]) (simp_all add: round_even_def Let_def)
  show "round64 75 = Fin 75"
    by (subst round64_binade [OF binade_eqI [of 6]]) (simp_all add: round_even_def Let_def)
qed

lemma percentile_stars_lo:
  "percentile (calculateRank_f64 stars_input_lo_f64) =
     Fin (6843580660716783 / 70368744177664)"
  using round64_facts slo_facts
  by (simp add: calculateRank_f64_def stars_input_lo_f64_def Let_def f64_sub_def
      exponential_cdf_f64_0 log_normal_cdf_f64_def)

lemma percentile_stars_hi:
  "percentile (calculateRank_f64 stars_input_hi_f64) =
     Fin (427723791294799 / 4398046511104)"
  using round64_facts shi_facts
  by (simp add: calculateRank_f64_def stars_input_hi_f64_def Let_def f64_sub_def
      exponential_cdf_f64_0 log_normal_cdf_f64_def)

lemma stars_not_monotone_f64:
  "moderate_input stars_input_lo_f64 \<and> moderate_input stars_input_hi_f64 \<and>
   stars_input_hi_f64 = stars_input_lo_f64\<lparr>stars := Fin 900719925474101\<rparr> \<and>
   stars stars_input_lo_f64 = Fin 900719925474100 \<and>
   \<not> f64_le (percentile (calculateRank_f64 stars_input_hi_f64))
     (percentile (calculateRank_f64 stars_input_lo_f64))"
proof -
  have "moderate_input stars_input_lo_f64" "moderate_input stars_input_hi_f64"
    by (simp_all add: moderate_input_def stars_input_lo_f64_def stars_input_hi_f64_def)
  moreover have
    "stars_input_hi_f64 = stars_input_lo_f64\<lparr>stars := Fin 900719925474101\<rparr>"
    "stars stars_input_lo_f64 = Fin 900719925474100"
    by (simp_all add: stars_input_lo_f64_def stars_input_hi_f64_def)
  ultimately show ?thesis
    by (simp add: percentile_stars_lo percentile_stars_hi)
qed

subsection \<open>Range and order in exact arithmetic\<close>

text \<open>
  In the exact reading, for non-negative metrics, the percentile lies between 0 and 100 and
  does not increase when one metric grows.
\<close>

lemma percentile_exact_in_range:
  assumes "non_negative p"
  shows "0 \<le> percentile (calculateRank p) \<and> percentile (calculateRank p) \<le> 100"
  using weighted_sum_nonneg [OF assms] weighted_sum_less [OF assms]
  by (simp add: percentile_calculateRank)


section \<open>The claims\<close>

text \<open>
  Claim C1. The claim reads: for every input whose six scored metrics are non-negative finite
  numbers, the percentile returned by \<open>calculateRank\<close> lies in the closed interval from 0
  to 100. It fails for the function as it is computed: \<open>2 ^ 1023\<close> is a finite double, and
  with \<^verbatim>\<open>stars = 2 ** 1023\<close> the quotient \<^verbatim>\<open>stars / 0.1\<close> is \<^verbatim>\<open>Infinity\<close>, the score
  \<^verbatim>\<open>Infinity / (1 + Infinity)\<close> is \<^verbatim>\<open>NaN\<close>, and so are the weighted sum and the percentile;
  no threshold is found and the level is undefined.
\<close>

theorem percentile_overflow_counterexample:
  "round64 (2 ^ 1023) = Fin (2 ^ 1023) \<and>
   percentile (calculateRank_f64 \<lparr>all_commits = False, commits = Fin 0, prs = Fin 0,
     issues = Fin 0, reviews = Fin 0, repos = Fin 0, stars = Fin (2 ^ 1023),
     followers = Fin 0\<rparr>) = NaN \<and>
   level (calculateRank_f64 \<lparr>all_commits = False, commits = Fin 0, prs = Fin 0,
     issues = Fin 0, reviews = Fin 0, repos = Fin 0, stars = Fin (2 ^ 1023),
     followers = Fin 0\<rparr>) = None \<and>
   \<not> (\<exists>pc. percentile (calculateRank_f64 \<lparr>all_commits = False, commits = Fin 0,
     prs = Fin 0, issues = Fin 0, reviews = Fin 0, repos = Fin 0, stars = Fin (2 ^ 1023),
     followers = Fin 0\<rparr>) = Fin pc \<and> 0 \<le> pc \<and> pc \<le> 100)"
proof -
  let ?p = "\<lparr>all_commits = False, commits = Fin 0, prs = Fin 0,
     issues = Fin 0, reviews = Fin 0, repos = Fin 0, stars = Fin (2 ^ 1023),
     followers = Fin 0\<rparr>"
  have s: "stars ?p = Fin (2 ^ 1023)"
    by simp
  have "percentile (calculateRank_f64 ?p) = NaN" "level (calculateRank_f64 ?p) = None"
    by (rule calculateRank_f64_overflow [OF s order_refl])+
  then show ?thesis
    using round64_2_1023 by simp
qed

text \<open>
  Claim C1, as the code has it: for every input whose six scored metrics are non-negative
  and at most \<open>10 ^ 300\<close>, the percentile that \<open>calculateRank\<close> computes in binary64 is a
  finite number in the closed interval from 0 to 100.
\<close>

theorem percentile_in_range_f64:
  assumes "moderate_input p"
  shows "\<exists>pc. percentile (calculateRank_f64 p) = Fin pc \<and> 0 \<le> pc \<and> pc \<le> 100"
  using calculateRank_f64_in_range [OF assms] by blast

theorem percentile_in_range_f64_witness:
  "moderate_input \<lparr>all_commits = True, commits = Fin 400, prs = Fin 15, issues = Fin 2,
      reviews = Fin 2, repos = Fin 10, stars = Fin 1, followers = Fin 2\<rparr> \<and>
   (\<exists>pc. percentile (calculateRank_f64 \<lparr>all_commits = True, commits = Fin 400, prs = Fin 15,
      issues = Fin 2, reviews = Fin 2, repos = Fin 10, stars = Fin 1, followers = Fin 2\<rparr>) =
      Fin pc \<and> 0 \<le> pc \<and> pc \<le> 100)"
proof -
  let ?p = "\<lparr>all_commits = True, commits = Fin 400, prs = Fin 15, issues = Fin 2,
      reviews = Fin 2, repos = Fin 10, stars = Fin 1, followers = Fin 2\<rparr>"
  have m: "moderate_input ?p"
    by (simp add: moderate_input_def)
  from percentile_in_range_f64 [OF m] m show ?thesis
    by blast
qed




text \<open>
  Claim C3. The claim reads: for every percentile value greater than 100, the bucketing step
  returns the lowest grade label, never an undefined result. It fails at 101, where
  \<open>findIndex\<close> finds no threshold and the array is read at index \<open>- 1\<close>. Such a percentile
  comes out of \<open>calculateRank\<close> for a negative metric (\<open>negative_commits_no_level\<close>), and
  for no input with non-negative metrics.
\<close>

theorem level_for_above_100_counterexample:
  "(100::real) < 101 \<and> level_for 101 = None \<and> level_for 101 \<noteq> Some (last LEVELS)"
  by (simp add: level_for_def findIndex_def THRESHOLDS_def LEVELS_def element_at_def)

text \<open>
  Claim C3, as the code has it: for every percentile value greater than 100, \<open>findIndex\<close>
  returns \<open>- 1\<close> and the level is undefined.
\<close>

theorem level_for_above_100:
  assumes "100 < x"
  shows "findIndex (\<lambda>t. x \<le> t) THRESHOLDS = - 1 \<and> level_for x = None"
  using assms by (simp add: level_for_def findIndex_def THRESHOLDS_def element_at_def)

theorem level_for_above_100_witness:
  "(100::real) < 101 \<and> findIndex (\<lambda>t. (101::real) \<le> t) THRESHOLDS = - 1 \<and> level_for 101 = None"
  using level_for_above_100 [of 101] by simp

text \<open>
  Claim C4. For every percentile value in the interval from 0 to 100, the bucketing step
  returns one grade label: the label at the first index, in the order of the table, whose
  threshold is greater than or equal to the percentile. In particular a percentile equal to
  a threshold gets the label of that threshold.
\<close>

theorem level_for_first_fit:
  assumes "0 \<le> x" and "x \<le> 100"
  shows "(\<exists>i < length THRESHOLDS. x \<le> THRESHOLDS ! i \<and> (\<forall>j < i. THRESHOLDS ! j < x) \<and>
           level_for x = Some (LEVELS ! i)) \<and>
         (\<forall>i < length THRESHOLDS. x = THRESHOLDS ! i \<longrightarrow> level_for x = Some (LEVELS ! i))"
proof
  have "100 \<in> set THRESHOLDS"
    by (simp add: THRESHOLDS_def)
  with assms(2) have "\<not> (\<forall>t \<in> set THRESHOLDS. \<not> x \<le> t)"
    by blast
  with findIndex_from_cases [of "\<lambda>t. x \<le> t" THRESHOLDS 0]
  obtain i where i: "i < length THRESHOLDS" "findIndex (\<lambda>t. x \<le> t) THRESHOLDS = int i"
    "x \<le> THRESHOLDS ! i" "\<forall>j < i. \<not> x \<le> THRESHOLDS ! j"
    unfolding findIndex_def by auto
  have "level_for x = Some (LEVELS ! i)"
    using i(1) by (simp add: level_for_def i(2) element_at_def length_THRESHOLDS length_LEVELS)
  with i show "\<exists>i < length THRESHOLDS. x \<le> THRESHOLDS ! i \<and> (\<forall>j < i. THRESHOLDS ! j < x) \<and>
      level_for x = Some (LEVELS ! i)"
    by (auto simp: not_le)
next
  show "\<forall>i < length THRESHOLDS. x = THRESHOLDS ! i \<longrightarrow> level_for x = Some (LEVELS ! i)"
    by (simp add: level_for_threshold)
qed

theorem level_for_first_fit_witness:
  "(0::real) \<le> 25 / 2 \<and> (25 / 2 :: real) \<le> 100 \<and> level_for (25 / 2) = Some ''A+''"
proof -
  have "\<forall>i < length THRESHOLDS. 25 / 2 = THRESHOLDS ! i \<longrightarrow>
      level_for (25 / 2) = Some (LEVELS ! i)"
    using level_for_first_fit [of "25 / 2"] by simp
  then have "level_for (25 / 2) = Some (LEVELS ! 4)"
    by (simp add: THRESHOLDS_def)
  then show ?thesis
    by (simp add: LEVELS_def)
qed

text \<open>
  Claim C5. When all six scored metrics are zero, \<open>calculateRank\<close> returns percentile 100
  and the last label of the grade table, whatever \<open>all_commits\<close> and \<open>repos\<close> are.
\<close>

theorem all_zero_input:
  "percentile (calculateRank \<lparr>all_commits = b, commits = 0, prs = 0, issues = 0, reviews = 0,
      repos = r, stars = 0, followers = 0\<rparr>) = 100 \<and>
   level (calculateRank \<lparr>all_commits = b, commits = 0, prs = 0, issues = 0, reviews = 0,
      repos = r, stars = 0, followers = 0\<rparr>) = Some ''C'' \<and> last LEVELS = ''C''"
proof -
  let ?p = "\<lparr>all_commits = b, commits = 0, prs = 0, issues = 0, reviews = 0,
      repos = r, stars = 0, followers = 0\<rparr>"
  have pct: "percentile (calculateRank ?p) = 100"
    by (simp add: percentile_calculateRank weighted_sum_of_def exponential_cdf_def
        log_normal_cdf_def)
  have "level_for 100 = Some ''C''"
    by (simp add: level_for_def findIndex_def THRESHOLDS_def LEVELS_def element_at_def)
  then have "level (calculateRank ?p) = Some ''C''"
    by (simp add: level_calculateRank pct)
  moreover have "last LEVELS = ''C''"
    by (simp add: LEVELS_def)
  ultimately show ?thesis using pct by simp
qed

text \<open>
  Claim C6. The claim reads: the commit median is 400 when \<open>all_commits\<close> is true and 80
  when it is false; with \<open>commits = 80\<close> and the other metrics fixed,
  \<open>all_commits = true\<close> gives a strictly higher percentile than \<open>all_commits = false\<close>.
  The second part fails for the function as it is computed when another metric overflows:
  with \<^verbatim>\<open>stars = 2 ** 1023\<close>, a finite double, both percentiles are \<^verbatim>\<open>NaN\<close> and neither is
  higher than the other.
\<close>

theorem commits_median_overflow_counterexample:
  "round64 (2 ^ 1023) = Fin (2 ^ 1023) \<and>
   percentile (calculateRank_f64 \<lparr>all_commits = True, commits = Fin 80, prs = Fin 0,
     issues = Fin 0, reviews = Fin 0, repos = Fin 0, stars = Fin (2 ^ 1023),
     followers = Fin 0\<rparr>) = NaN \<and>
   percentile (calculateRank_f64 \<lparr>all_commits = False, commits = Fin 80, prs = Fin 0,
     issues = Fin 0, reviews = Fin 0, repos = Fin 0, stars = Fin (2 ^ 1023),
     followers = Fin 0\<rparr>) = NaN \<and>
   \<not> (\<exists>a b.
     percentile (calculateRank_f64 \<lparr>all_commits = True, commits = Fin 80, prs = Fin 0,
       issues = Fin 0, reviews = Fin 0, repos = Fin 0, stars = Fin (2 ^ 1023),
       followers = Fin 0\<rparr>) = Fin a \<and>
     percentile (calculateRank_f64 \<lparr>all_commits = False, commits = Fin 80, prs = Fin 0,
       issues = Fin 0, reviews = Fin 0, repos = Fin 0, stars = Fin (2 ^ 1023),
       followers = Fin 0\<rparr>) = Fin b \<and> b < a)"
proof -
  let ?p = "\<lambda>c. \<lparr>all_commits = c, commits = Fin 80, prs = Fin 0,
     issues = Fin 0, reviews = Fin 0, repos = Fin 0, stars = Fin (2 ^ 1023),
     followers = Fin (0::real)\<rparr>"
  have s: "stars (?p c) = Fin (2 ^ 1023)" for c
    by simp
  have "percentile (calculateRank_f64 (?p c)) = NaN" for c
    by (rule calculateRank_f64_overflow [OF s order_refl])
  from this [of True] this [of False] show ?thesis
    using round64_2_1023 by simp
qed

text \<open>
  Claim C6, as the code has it, in binary64: the score of commits is computed from
  \<open>commits / 400\<close> when \<open>all_commits\<close> is true and from \<open>commits / 80\<close> when it is false;
  with \<open>commits = 80\<close> and the other five metrics fixed, non-negative and at most
  \<open>10 ^ 300\<close>, both percentiles are finite and \<open>all_commits = true\<close> gives the strictly
  higher one.
\<close>

theorem commits_median_all_commits_f64:
  "m_commits (scores (detailed (calculateRank_f64 (p\<lparr>all_commits := True\<rparr>)))) =
     exponential_cdf_f64 (f64_div (commits p) (Fin 400)) \<and>
   m_commits (scores (detailed (calculateRank_f64 (p\<lparr>all_commits := False\<rparr>)))) =
     exponential_cdf_f64 (f64_div (commits p) (Fin 80)) \<and>
   (moderate (prs p) \<and> moderate (issues p) \<and> moderate (reviews p) \<and> moderate (stars p) \<and>
    moderate (followers p) \<longrightarrow>
    (\<exists>a b. percentile (calculateRank_f64 (p\<lparr>commits := Fin 80, all_commits := True\<rparr>)) = Fin a \<and>
       percentile (calculateRank_f64 (p\<lparr>commits := Fin 80, all_commits := False\<rparr>)) = Fin b \<and>
       b < a))"
proof (intro conjI impI)
  show "m_commits (scores (detailed (calculateRank_f64 (p\<lparr>all_commits := True\<rparr>)))) =
     exponential_cdf_f64 (f64_div (commits p) (Fin 400))"
    by (simp add: calculateRank_f64_def Let_def round64_400)
  show "m_commits (scores (detailed (calculateRank_f64 (p\<lparr>all_commits := False\<rparr>)))) =
     exponential_cdf_f64 (f64_div (commits p) (Fin 80))"
    by (simp add: calculateRank_f64_def Let_def round64_80)
next
  assume "moderate (prs p) \<and> moderate (issues p) \<and> moderate (reviews p) \<and>
    moderate (stars p) \<and> moderate (followers p)"
  then show "\<exists>a b.
      percentile (calculateRank_f64 (p\<lparr>commits := Fin 80, all_commits := True\<rparr>)) = Fin a \<and>
      percentile (calculateRank_f64 (p\<lparr>commits := Fin 80, all_commits := False\<rparr>)) = Fin b \<and>
      b < a"
    using all_commits_raises_percentile_f64 [of "p\<lparr>commits := Fin 80\<rparr>"] by simp
qed

theorem commits_median_all_commits_f64_witness:
  "moderate (prs median_input_f64) \<and> moderate (issues median_input_f64) \<and>
   moderate (reviews median_input_f64) \<and> moderate (stars median_input_f64) \<and>
   moderate (followers median_input_f64) \<and>
   (\<exists>a b.
      percentile (calculateRank_f64 (median_input_f64\<lparr>commits := Fin 80, all_commits := True\<rparr>)) =
        Fin a \<and>
      percentile (calculateRank_f64 (median_input_f64\<lparr>commits := Fin 80, all_commits := False\<rparr>)) =
        Fin b \<and> b < a)"
proof -
  have m: "moderate (prs median_input_f64) \<and> moderate (issues median_input_f64) \<and>
    moderate (reviews median_input_f64) \<and> moderate (stars median_input_f64) \<and>
    moderate (followers median_input_f64)"
    by (simp add: median_input_f64_def)
  with commits_median_all_commits_f64 [of median_input_f64] show ?thesis
    by blast
qed

text \<open>
  Claim C7. The scores of commits, prs, issues and reviews are \<open>1 - 2 powr (- (raw / median))\<close>,
  those of stars and followers are \<open>r / (1 + r)\<close> for the ratio \<open>r = raw / median\<close>; both
  functions map 0 to 0 and tend to 1 as the ratio grows.
\<close>

theorem normalized_scores:
  "scores (detailed (calculateRank p)) =
     \<lparr> m_commits = 1 - 2 powr (- (commits p / (if all_commits p then 400 else 80))),
       m_prs = 1 - 2 powr (- (prs p / 15)),
       m_issues = 1 - 2 powr (- (issues p / 2)),
       m_reviews = 1 - 2 powr (- (reviews p / 2)),
       m_stars = (stars p / (1 / 10)) / (1 + stars p / (1 / 10)),
       m_followers = (followers p / 2) / (1 + followers p / 2) \<rparr> \<and>
   exponential_cdf 0 = 0 \<and> log_normal_cdf 0 = 0 \<and>
   (exponential_cdf \<longlongrightarrow> 1) at_top \<and> (log_normal_cdf \<longlongrightarrow> 1) at_top"
proof -
  have "scores (detailed (calculateRank p)) =
     \<lparr> m_commits = 1 - 2 powr (- (commits p / (if all_commits p then 400 else 80))),
       m_prs = 1 - 2 powr (- (prs p / 15)),
       m_issues = 1 - 2 powr (- (issues p / 2)),
       m_reviews = 1 - 2 powr (- (reviews p / 2)),
       m_stars = (stars p / (1 / 10)) / (1 + stars p / (1 / 10)),
       m_followers = (followers p / 2) / (1 + followers p / 2) \<rparr>"
    by (simp add: calculateRank_def Let_def exponential_cdf_def log_normal_cdf_def)
  moreover have "exponential_cdf 0 = 0" "log_normal_cdf 0 = 0"
    by (simp_all add: exponential_cdf_def log_normal_cdf_def)
  ultimately show ?thesis
    using exponential_cdf_tendsto_1 log_normal_cdf_tendsto_1 by simp
qed

text \<open>
  Claim C8. The claim reads: for every input with non-negative finite metrics the total
  weighted score is at most the maximum possible score, and strictly below it for all finite
  inputs. The strict part fails for the function as it is computed: at \<open>large_input_f64\<close>,
  whose fields are doubles (\<open>round64_inputs\<close>), every score rounds to 1
  (\<open>scores_large\<close>) and the total is equal to the maximum.
\<close>

theorem total_reaches_max_f64:
  "total_weighted_score (detailed (calculateRank_f64 large_input_f64)) =
     Fin (5502835794693325 / 281474976710656) \<and>
   max_possible_score (detailed (calculateRank_f64 large_input_f64)) =
     Fin (5502835794693325 / 281474976710656) \<and>
   f64_le (max_possible_score (detailed (calculateRank_f64 large_input_f64)))
     (total_weighted_score (detailed (calculateRank_f64 large_input_f64)))"
proof -
  have "total_weighted_score (detailed (calculateRank_f64 large_input_f64)) =
      Fin (5502835794693325 / 281474976710656)"
    using round64_facts
    by (simp add: calculateRank_f64_def large_input_f64_def Let_def
        exp_score_2000 log_score_stars log_score_followers)
  moreover have "max_possible_score (detailed (calculateRank_f64 large_input_f64)) =
      Fin (5502835794693325 / 281474976710656)"
    using round64_facts
    by (simp add: calculateRank_f64_def large_input_f64_def Let_def)
  ultimately show ?thesis
    by simp
qed

text \<open>
  Claim C8, as the code has it: for every input with non-negative metrics the total weighted
  score is at most the maximum possible score. This holds in binary64 arithmetic, for metrics
  of at most \<open>10 ^ 300\<close>, where equality is reached; it holds strictly in exact arithmetic.
  The witness is the same large input in both readings.
\<close>

theorem total_at_most_max:
  "(moderate_input p \<longrightarrow>
      f64_le (total_weighted_score (detailed (calculateRank_f64 p)))
        (max_possible_score (detailed (calculateRank_f64 p)))) \<and>
   (non_negative q \<longrightarrow>
      total_weighted_score (detailed (calculateRank q))
      < max_possible_score (detailed (calculateRank q)))"
proof (intro conjI impI)
  assume "moderate_input p"
  from calculateRank_f64_in_range [OF this]
  show "f64_le (total_weighted_score (detailed (calculateRank_f64 p)))
      (max_possible_score (detailed (calculateRank_f64 p)))"
    by auto
next
  assume "non_negative q"
  from weighted_sum_less [OF this]
  show "total_weighted_score (detailed (calculateRank q))
      < max_possible_score (detailed (calculateRank q))"
    by (simp add: total_calculateRank max_calculateRank)
qed

theorem total_at_most_max_witness:
  "moderate_input large_input_f64 \<and>
   f64_le (total_weighted_score (detailed (calculateRank_f64 large_input_f64)))
     (max_possible_score (detailed (calculateRank_f64 large_input_f64))) \<and>
   non_negative large_input \<and>
   total_weighted_score (detailed (calculateRank large_input))
   < max_possible_score (detailed (calculateRank large_input))"
proof -
  have m: "moderate_input large_input_f64"
    by (simp add: moderate_input_def large_input_f64_def)
  have n: "non_negative large_input"
    by (simp add: non_negative_def large_input_def)
  from total_at_most_max [of large_input_f64 large_input] m n show ?thesis
    by blast
qed

text \<open>
  Claim C9. The field \<open>repos\<close> has no influence on the result: two inputs that differ in
  \<open>repos\<close> only give equal results.
\<close>

theorem repos_unused: "calculateRank (p\<lparr>repos := r\<rparr>) = calculateRank p"
proof -
  have "all_commits (p\<lparr>repos := r\<rparr>) = all_commits p" "commits (p\<lparr>repos := r\<rparr>) = commits p"
    "prs (p\<lparr>repos := r\<rparr>) = prs p" "issues (p\<lparr>repos := r\<rparr>) = issues p"
    "reviews (p\<lparr>repos := r\<rparr>) = reviews p" "stars (p\<lparr>repos := r\<rparr>) = stars p"
    "followers (p\<lparr>repos := r\<rparr>) = followers p"
    by simp_all
  then show ?thesis
    unfolding calculateRank_def by (simp only:)
qed

text \<open>
  Claim C10. The result is consistent with itself: \<open>level\<close> and \<open>percentile\<close> are repeated
  in \<open>detailed\<close>, each weighted contribution is the weight times the score, and the total
  weighted score is the sum of the six weighted contributions.
\<close>

theorem result_consistent:
  "level (calculateRank p) = d_level (detailed (calculateRank p)) \<and>
   percentile (calculateRank p) = d_percentile (detailed (calculateRank p)) \<and>
   m_commits (weighted_contributions (detailed (calculateRank p))) =
     m_commits (weights (detailed (calculateRank p))) *
     m_commits (scores (detailed (calculateRank p))) \<and>
   m_prs (weighted_contributions (detailed (calculateRank p))) =
     m_prs (weights (detailed (calculateRank p))) * m_prs (scores (detailed (calculateRank p))) \<and>
   m_issues (weighted_contributions (detailed (calculateRank p))) =
     m_issues (weights (detailed (calculateRank p))) *
     m_issues (scores (detailed (calculateRank p))) \<and>
   m_reviews (weighted_contributions (detailed (calculateRank p))) =
     m_reviews (weights (detailed (calculateRank p))) *
     m_reviews (scores (detailed (calculateRank p))) \<and>
   m_stars (weighted_contributions (detailed (calculateRank p))) =
     m_stars (weights (detailed (calculateRank p))) *
     m_stars (scores (detailed (calculateRank p))) \<and>
   m_followers (weighted_contributions (detailed (calculateRank p))) =
     m_followers (weights (detailed (calculateRank p))) *
     m_followers (scores (detailed (calculateRank p))) \<and>
   total_weighted_score (detailed (calculateRank p)) =
     m_commits (weighted_contributions (detailed (calculateRank p))) +
     m_prs (weighted_contributions (detailed (calculateRank p))) +
     m_issues (weighted_contributions (detailed (calculateRank p))) +
     m_reviews (weighted_contributions (detailed (calculateRank p))) +
     m_stars (weighted_contributions (detailed (calculateRank p))) +
     m_followers (weighted_contributions (detailed (calculateRank p)))"
  by (simp add: calculateRank_def Let_def)

end
